theory Spec2Isabelle
  imports Complex_Main
begin

section \<open>The playing state of the librarian game\<close>

text \<open>
  A shallow embedding of \<^verbatim>\<open>src/game/states/PlayingState.js\<close>. JavaScript numbers
  are modelled as reals where the code computes with fractions (positions, timers, chaos)
  and as integers where every value written is a whole number (\<^verbatim>\<open>xp\<close> and
  \<^verbatim>\<open>xpToNext\<close> only ever receive \<^verbatim>\<open>Math.floor\<close> results; counters only
  receive \<^verbatim>\<open>++\<close>). Rounding of IEEE doubles is not modelled.

  Objects that the code shares by reference are books: the array \<^verbatim>\<open>this.books\<close>
  is the store, and a reference to a book is its index in that array.
\<close>

subsection \<open>Entities\<close>

type_synonym bookRef = nat

record book =
  bookX :: real
  bookY :: real
  bookWidth :: real
  bookHeight :: real
  color :: string
  isHeld :: bool
  isShelved :: bool

record shelf =
  shelfX :: real
  shelfY :: real
  shelfWidth :: real
  shelfHeight :: real
  shelfColor :: string
  capacity :: nat
  slots :: "bookRef list"

record kid =
  kidX :: real
  kidY :: real
  kidWidth :: real
  kidHeight :: real
  aggressionLevel :: nat
  state :: string
  carriedBook :: "bookRef option"
  dropBookTimer :: real

record stats =
  pickupRadius :: real
  returnRadius :: real
  carrySlots :: nat
  stamina :: real
  maxStamina :: real
  chaosDampening :: real
  xpMultiplier :: real

record player =
  playerX :: real
  playerY :: real
  playerWidth :: real
  playerHeight :: real
  stats :: stats
  repelRadius :: real
  carriedBooks :: "bookRef list"

text \<open>
  A particle of the pool. The text \<^verbatim>\<open>`+${n} XP`\<close> is stored as the number \<open>n\<close>.
\<close>

record particle =
  ptype :: string
  particleX :: real
  particleY :: real
  xpText :: int
  vy :: real
  lifetime :: real
  age :: real

subsection \<open>World state\<close>

record gameData =
  chaosLevel :: real
  maxChaos :: real
  playerLevel :: nat
  xp :: int
  xpToNext :: int
  elapsedTime :: real
  targetTime :: real
  isPaused :: bool
  booksCollected :: nat
  booksShelved :: nat
  kidsRepelled :: nat

text \<open>
  Calls to the collaborators that the code only talks to (state manager, audio) are kept
  as a log, in the order in which the code makes them.
\<close>

datatype event =
  PushState string
| ChangeState string bool "string option"
| MusicPause
| PickupSound
| ShelfSound

text \<open>
  The fields of \<^verbatim>\<open>PlayingState\<close> and \<^verbatim>\<open>this.game.gameData\<close>. The object pool of
  particles is a free list whose objects are overwritten field by field when acquired,
  so it is modelled by the number of free objects.
\<close>

record world =
  player :: "player option"
  kids :: "kid list"
  books :: "book list"
  shelves :: "shelf list"
  particles :: "particle list"
  particlePool :: nat
  kidSpawnTimer :: real
  kidSpawnInterval :: real
  maxKids :: nat
  gameData :: gameData
  bgMusic :: bool
  events :: "event list"

definition spawnPoints :: "(real \<times> real) list" where
  "spawnPoints = [(50, 520), (1550, 520), (800, 50), (800, 990)]"

subsection \<open>Collaborator methods\<close>

text \<open>
  Modelled from the spec: \<^verbatim>\<open>getCenterX\<close>, \<^verbatim>\<open>getCenterY\<close> and \<^verbatim>\<open>getBounds\<close> of
  the entity classes (\<^verbatim>\<open>Player.js\<close>, \<^verbatim>\<open>Book.js\<close>, \<^verbatim>\<open>Kid.js\<close>,
  \<^verbatim>\<open>Shelf.js\<close> are not part of the sources at hand). Every entity has a position
  and an axis-aligned bounding box of its width and height; the centre is the middle of
  the box.
\<close>

definition centre :: "real \<Rightarrow> real \<Rightarrow> real" where
  "centre pos extent = pos + extent / 2"

text \<open>
  Modelled from the spec: \<^verbatim>\<open>Player.getXPMultiplier\<close>, the multiplier held in the
  player's stats.
\<close>

definition getXPMultiplier :: "player \<Rightarrow> real" where
  "getXPMultiplier p = xpMultiplier (stats p)"

text \<open>
  Modelled from the spec: \<^verbatim>\<open>Player.pickupBook\<close>. The carried list is bounded by
  \<^verbatim>\<open>carrySlots\<close>: with a free slot the book is appended and the call returns true,
  otherwise nothing changes and it returns false.
\<close>

definition pickupBook :: "player \<Rightarrow> bookRef \<Rightarrow> bool \<times> player" where
  "pickupBook p b =
     (if length (carriedBooks p) < carrySlots (stats p)
      then (True, p\<lparr>carriedBooks := carriedBooks p @ [b]\<rparr>)
      else (False, p))"

text \<open>
  Modelled from the spec: \<^verbatim>\<open>Book.pickup\<close>. The book becomes held (by the holder
  that now lists it) and is neither on the floor nor on a shelf.
\<close>

definition pickup :: "book \<Rightarrow> book" where
  "pickup b = b\<lparr>isHeld := True, isShelved := False\<rparr>"

text \<open>
  Modelled from the spec: \<^verbatim>\<open>Shelf.hasEmptySlots\<close> and \<^verbatim>\<open>Shelf.addBook\<close>. A shelf
  holds at most \<^verbatim>\<open>capacity\<close> books and only accepts books of its own colour; an
  accepted book is appended to the slots and becomes shelved.
\<close>

definition hasEmptySlots :: "shelf \<Rightarrow> bool" where
  "hasEmptySlots sh = (length (slots sh) < capacity sh)"

definition addBook :: "shelf \<Rightarrow> bookRef \<Rightarrow> book \<Rightarrow> bool \<times> shelf \<times> book" where
  "addBook sh r b =
     (if color b = shelfColor sh \<and> length (slots sh) < capacity sh
      then (True, sh\<lparr>slots := slots sh @ [r]\<rparr>, b\<lparr>isHeld := False, isShelved := True\<rparr>)
      else (False, sh, b))"

text \<open>
  Modelled from the spec: \<^verbatim>\<open>Player.shelveBook\<close>. The player hands over the first
  carried book that the shelf accepts (same colour) and drops it from the carried list;
  without such a book the call returns nothing.
\<close>

definition shelveBook :: "book list \<Rightarrow> player \<Rightarrow> shelf \<Rightarrow> bookRef option \<times> player" where
  "shelveBook bs p sh =
     (case List.find (\<lambda>r. r < length bs \<and> color (bs ! r) = shelfColor sh) (carriedBooks p) of
        None \<Rightarrow> (None, p)
      | Some r \<Rightarrow> (Some r, p\<lparr>carriedBooks := remove1 r (carriedBooks p)\<rparr>))"

subsection \<open>Experience and levels\<close>

text \<open>
  One round of the \<^verbatim>\<open>while\<close> loop of \<^verbatim>\<open>awardXP\<close>. The level starts at 1 and is
  only ever incremented, so it is a natural number, and the exponent
  \<^verbatim>\<open>playerLevel - 1\<close> is read after the increment.
\<close>

definition levelUp :: "world \<Rightarrow> world" where
  "levelUp s =
     (let g = gameData s;
          lvl = playerLevel g + 1;
          g1 = g\<lparr>xp := xp g - xpToNext g, playerLevel := lvl\<rparr>;
          p1 = (case player s of
                  None \<Rightarrow> None
                | Some p \<Rightarrow> Some (p\<lparr>stats := (stats p)\<lparr>stamina := maxStamina (stats p)\<rparr>\<rparr>));
          g2 = g1\<lparr>xpToNext := \<lfloor>100 * (1.45 :: real) ^ (lvl - 1)\<rfloor>\<rparr>
      in s\<lparr>gameData := g2, player := p1,
           events := events s @ [PushState ''upgradeSelection'']\<rparr>)"

function levelUpLoop :: "world \<Rightarrow> world" where
  "levelUpLoop s =
     (if xpToNext (gameData s) \<le> xp (gameData s) then levelUpLoop (levelUp s) else s)"
  by pat_completeness auto

termination levelUpLoop
proof (relation "measures [\<lambda>s. if xpToNext (gameData s) < 100 then 1 else 0,
                           \<lambda>s. nat (xp (gameData s))]")
  show "wf (measures [\<lambda>s. if xpToNext (gameData s) < 100 then 1 else 0,
                      \<lambda>s. nat (xp (gameData s))])"
    by simp
next
  fix s :: world
  assume loop: "xpToNext (gameData s) \<le> xp (gameData s)"
  have "(1 :: real) \<le> 1.45 ^ playerLevel (gameData s)"
    by (rule one_le_power) simp
  then have "(100 :: real) \<le> 100 * 1.45 ^ playerLevel (gameData s)"
    by simp
  then have "100 \<le> \<lfloor>100 * (1.45 :: real) ^ playerLevel (gameData s)\<rfloor>"
    by (simp add: le_floor_iff)
  then have next_threshold: "100 \<le> xpToNext (gameData (levelUp s))"
    by (simp add: levelUp_def Let_def)
  have "xp (gameData (levelUp s)) = xp (gameData s) - xpToNext (gameData s)"
    by (simp add: levelUp_def Let_def)
  with loop next_threshold
  show "(levelUp s, s) \<in> measures [\<lambda>s. if xpToNext (gameData s) < 100 then 1 else 0,
                                         \<lambda>s. nat (xp (gameData s))]"
    by auto
qed

declare levelUpLoop.simps [simp del]

text \<open>
  \<^verbatim>\<open>awardXP(amount)\<close> up to its loop: the multiplier is the player's, or 1 when there
  is no player or the multiplier is falsy (zero); the floored product is added to
  \<^verbatim>\<open>xp\<close>; with a player, one particle is taken from the pool and placed above the
  player.
\<close>

definition gainXP :: "real \<Rightarrow> world \<Rightarrow> world" where
  "gainXP amount s =
     (let m = (case player s of
                 None \<Rightarrow> 1
               | Some p \<Rightarrow> if getXPMultiplier p = 0 then 1 else getXPMultiplier p);
          multipliedAmount = \<lfloor>amount * m\<rfloor>;
          s1 = s\<lparr>gameData := (gameData s)\<lparr>xp := xp (gameData s) + multipliedAmount\<rparr>\<rparr>
      in case player s1 of
           None \<Rightarrow> s1
         | Some p \<Rightarrow>
             s1\<lparr>particlePool := particlePool s1 - 1,
                particles := particles s1 @
                  [\<lparr>ptype = ''xp'',
                    particleX = centre (playerX p) (playerWidth p),
                    particleY = playerY p - 10,
                    xpText = multipliedAmount,
                    vy = - 50, lifetime = 1.5, age = 0\<rparr>]\<rparr>)"

definition awardXP :: "real \<Rightarrow> world \<Rightarrow> world" where
  "awardXP amount s = levelUpLoop (gainXP amount s)"

subsection \<open>Chaos\<close>

text \<open>The books that are neither held nor shelved (line 235).\<close>

definition booksOnFloor :: "world \<Rightarrow> nat" where
  "booksOnFloor s = length (filter (\<lambda>b. \<not> isHeld b \<and> \<not> isShelved b) (books s))"

definition updateChaos :: "real \<Rightarrow> world \<Rightarrow> world" where
  "updateChaos deltaTime s =
     (let g = gameData s;
          c = (if booksOnFloor s > 0 then
                 (let chaosRate = real (booksOnFloor s) * 0.1;
                      dampening = (case player s of
                                     None \<Rightarrow> 0
                                   | Some p \<Rightarrow> chaosDampening (stats p));
                      chaosMultiplier = 1 - dampening / 100
                  in chaosLevel g + chaosRate * deltaTime * chaosMultiplier)
               else if chaosLevel g > 0 then chaosLevel g - 0.5 * deltaTime
               else chaosLevel g)
      in s\<lparr>gameData := g\<lparr>chaosLevel := max 0 (min (maxChaos g) c)\<rparr>\<rparr>)"

subsection \<open>Kid spawning\<close>

text \<open>
  The \<^verbatim>\<open>Kid\<close> constructor is not part of the sources at hand and is a parameter
  \<open>newKid\<close>, called with the spawn point and the aggression level. \<open>rnd\<close> is the value
  returned by \<^verbatim>\<open>Math.random()\<close>, which lies in \<open>[0, 1)\<close>, so that the index
  computed from it is within the four spawn points.
\<close>

definition updateKidSpawning ::
  "(real \<Rightarrow> real \<Rightarrow> nat \<Rightarrow> kid) \<Rightarrow> real \<Rightarrow> real \<Rightarrow> world \<Rightarrow> world" where
  "updateKidSpawning newKid rnd deltaTime s =
     (let minutes = elapsedTime (gameData s) / 60;
          s1 = (if minutes > 5 then s\<lparr>maxKids := 10\<rparr>
                else if minutes > 2 then s\<lparr>maxKids := 5\<rparr>
                else s)
      in if length (kids s1) \<ge> maxKids s1 then s1
         else
           (let s2 = s1\<lparr>kidSpawnTimer := kidSpawnTimer s1 - deltaTime\<rparr>
            in if kidSpawnTimer s2 \<le> 0 then
                 (let aggression = (if minutes \<ge> 10 then 3 else if minutes \<ge> 5 then 2 else 1);
                      spawnPoint = spawnPoints ! nat \<lfloor>rnd * real (length spawnPoints)\<rfloor>;
                      k = newKid (fst spawnPoint) (snd spawnPoint) aggression
                  in s2\<lparr>kids := kids s2 @ [k], kidSpawnTimer := kidSpawnInterval s2\<rparr>)
               else s2))"

subsection \<open>Interaction passes\<close>

definition distanceBetween :: "real \<Rightarrow> real \<Rightarrow> real \<Rightarrow> real \<Rightarrow> real" where
  "distanceBetween x1 y1 x2 y2 = sqrt ((x1 - x2)\<^sup>2 + (y1 - y2)\<^sup>2)"

text \<open>The body of the loop of \<^verbatim>\<open>checkBookPickup\<close>, for the book at index \<open>i\<close>.\<close>

definition pickupStep :: "real \<Rightarrow> real \<Rightarrow> real \<Rightarrow> bookRef \<Rightarrow> world \<Rightarrow> world" where
  "pickupStep radius playerCenterX playerCenterY i s =
     (let bk = books s ! i
      in if isHeld bk \<or> isShelved bk then s
         else if distanceBetween (centre (bookX bk) (bookWidth bk)) (centre (bookY bk) (bookHeight bk))
                   playerCenterX playerCenterY \<le> radius
         then (case player s of
                 None \<Rightarrow> s
               | Some p \<Rightarrow>
                   (case pickupBook p i of
                      (False, p1) \<Rightarrow> s\<lparr>player := Some p1\<rparr>
                    | (True, p1) \<Rightarrow>
                        (let s1 = s\<lparr>player := Some p1, books := (books s)[i := pickup bk]\<rparr>;
                             s2 = s1\<lparr>gameData := (gameData s1)
                                    \<lparr>booksCollected := booksCollected (gameData s1) + 1\<rparr>\<rparr>;
                             s3 = s2\<lparr>gameData := (gameData s2)
                                    \<lparr>chaosLevel := chaosLevel (gameData s2) - 0.5\<rparr>\<rparr>;
                             s4 = awardXP 5 s3
                         in s4\<lparr>events := events s4 @ [PickupSound]\<rparr>)))
         else s)"

definition checkBookPickup :: "world \<Rightarrow> world" where
  "checkBookPickup s =
     (case player s of
        None \<Rightarrow> s
      | Some p \<Rightarrow>
          fold (pickupStep (pickupRadius (stats p) * 32)
                  (centre (playerX p) (playerWidth p)) (centre (playerY p) (playerHeight p)))
            [0 ..< length (books s)] s)"

text \<open>The body of the loop of \<^verbatim>\<open>checkBookSnatching\<close>, for the kid at index \<open>k\<close>.\<close>

definition snatchStep :: "real \<Rightarrow> real \<Rightarrow> real \<Rightarrow> nat \<Rightarrow> world \<Rightarrow> world" where
  "snatchStep snatchRadius playerCenterX playerCenterY k s =
     (let kd = kids s ! k
      in case carriedBook kd of
           None \<Rightarrow> s
         | Some b \<Rightarrow>
             if distanceBetween (centre (kidX kd) (kidWidth kd)) (centre (kidY kd) (kidHeight kd))
                  playerCenterX playerCenterY \<le> snatchRadius
             then
               (let s1 = s\<lparr>kids := (kids s)[k := kd\<lparr>carriedBook := None, dropBookTimer := 0\<rparr>]\<rparr>
                in case player s1 of
                     None \<Rightarrow> s1
                   | Some p \<Rightarrow>
                       (case pickupBook p b of
                          (False, p1) \<Rightarrow> s1\<lparr>player := Some p1\<rparr>
                        | (True, p1) \<Rightarrow>
                            (let s2 = s1\<lparr>player := Some p1,
                                         books := (books s1)[b := pickup (books s1 ! b)]\<rparr>;
                                 s3 = s2\<lparr>gameData := (gameData s2)
                                        \<lparr>booksCollected := booksCollected (gameData s2) + 1\<rparr>\<rparr>;
                                 s4 = s3\<lparr>kids := (kids s3)[k := (kids s3 ! k)\<lparr>state := ''fleeing''\<rparr>]\<rparr>;
                                 s5 = s4\<lparr>gameData := (gameData s4)
                                        \<lparr>chaosLevel := chaosLevel (gameData s4) - 0.75\<rparr>\<rparr>;
                                 s6 = awardXP 7 s5
                             in s6\<lparr>events := events s6 @ [PickupSound]\<rparr>)))
             else s)"

definition checkBookSnatching :: "world \<Rightarrow> world" where
  "checkBookSnatching s =
     (case player s of
        None \<Rightarrow> s
      | Some p \<Rightarrow>
          if length (carriedBooks p) \<ge> carrySlots (stats p) then s
          else fold (snatchStep (repelRadius p)
                       (centre (playerX p) (playerWidth p)) (centre (playerY p) (playerHeight p)))
                 [0 ..< length (kids s)] s)"

definition isPlayerNearShelf :: "world \<Rightarrow> shelf \<Rightarrow> real \<Rightarrow> bool" where
  "isPlayerNearShelf s sh distance =
     (case player s of
        None \<Rightarrow> False
      | Some p \<Rightarrow>
          playerX p < shelfX sh + shelfWidth sh + distance \<and>
          playerX p + playerWidth p > shelfX sh - distance \<and>
          playerY p < shelfY sh + shelfHeight sh + distance \<and>
          playerY p + playerHeight p > shelfY sh - distance)"

text \<open>The body of the loop of \<^verbatim>\<open>checkBookShelving\<close>, for the shelf at index \<open>j\<close>.\<close>

definition shelvingStep :: "real \<Rightarrow> nat \<Rightarrow> world \<Rightarrow> world" where
  "shelvingStep radius j s =
     (let sh = shelves s ! j
      in if isPlayerNearShelf s sh radius \<and> hasEmptySlots sh
         then (case player s of
                 None \<Rightarrow> s
               | Some p \<Rightarrow>
                   (case shelveBook (books s) p sh of
                      (None, p1) \<Rightarrow> s\<lparr>player := Some p1\<rparr>
                    | (Some r, p1) \<Rightarrow>
                        (let s1 = s\<lparr>player := Some p1\<rparr>
                         in case addBook sh r (books s1 ! r) of
                              (False, sh1, b1) \<Rightarrow> s1
                            | (True, sh1, b1) \<Rightarrow>
                                (let s2 = s1\<lparr>shelves := (shelves s1)[j := sh1],
                                             books := (books s1)[r := b1]\<rparr>;
                                     s3 = s2\<lparr>gameData := (gameData s2)
                                            \<lparr>booksShelved := booksShelved (gameData s2) + 1\<rparr>\<rparr>;
                                     s4 = s3\<lparr>gameData := (gameData s3)
                                            \<lparr>chaosLevel := chaosLevel (gameData s3) - 1.0\<rparr>\<rparr>;
                                     s5 = awardXP 10 s4
                                 in s5\<lparr>events := events s5 @ [ShelfSound]\<rparr>))))
         else s)"

definition checkBookShelving :: "world \<Rightarrow> world" where
  "checkBookShelving s =
     (case player s of
        None \<Rightarrow> s
      | Some p \<Rightarrow>
          if length (carriedBooks p) = 0 then s
          else fold (shelvingStep (returnRadius (stats p) * 32)) [0 ..< length (shelves s)] s)"

subsection \<open>Particles\<close>

definition advance :: "real \<Rightarrow> particle \<Rightarrow> particle" where
  "advance deltaTime pt =
     (let p1 = pt\<lparr>age := age pt + deltaTime\<rparr>
      in if ptype p1 = ''xp''
         then (let p2 = p1\<lparr>particleY := particleY p1 + vy p1 * deltaTime\<rparr>
               in p2\<lparr>vy := vy p2 + 100 * deltaTime\<rparr>)
         else p1)"

definition updateParticles :: "real \<Rightarrow> world \<Rightarrow> world" where
  "updateParticles deltaTime s =
     (let aged = map (advance deltaTime) (particles s);
          expired = filter (\<lambda>pt. age pt \<ge> lifetime pt) aged
      in s\<lparr>particlePool := particlePool s + length expired,
           particles := filter (\<lambda>pt. \<not> age pt \<ge> lifetime pt) aged\<rparr>)"

subsection \<open>The tick\<close>

text \<open>
  \<^verbatim>\<open>update(deltaTime)\<close>. The self-updates of the player, the shelves, the books and the
  kids (lines 210 to 224) belong to the entity classes and are the parameter
  \<open>entityUpdates\<close>; \<open>isKeyPressed\<close> is the input manager's answer in this tick.
\<close>

definition update ::
  "(real \<Rightarrow> world \<Rightarrow> world) \<Rightarrow> (real \<Rightarrow> real \<Rightarrow> nat \<Rightarrow> kid) \<Rightarrow> (string \<Rightarrow> bool) \<Rightarrow> real
     \<Rightarrow> real \<Rightarrow> world \<Rightarrow> world" where
  "update entityUpdates newKid isKeyPressed rnd deltaTime s =
     (if isKeyPressed ''p'' \<or> isKeyPressed ''Escape''
      then (let s1 = (if bgMusic s then s\<lparr>events := events s @ [MusicPause]\<rparr> else s)
            in s1\<lparr>events := events s1 @ [PushState ''paused'']\<rparr>)
      else if isPaused (gameData s) then s
      else
        (let s1 = s\<lparr>gameData := (gameData s)
                      \<lparr>elapsedTime := elapsedTime (gameData s) + deltaTime\<rparr>\<rparr>
         in if elapsedTime (gameData s1) \<ge> targetTime (gameData s1)
            then s1\<lparr>events := events s1 @ [ChangeState ''gameover'' True None]\<rparr>
            else
              (let s2 = updateChaos deltaTime s1
               in if chaosLevel (gameData s2) \<ge> maxChaos (gameData s2)
                  then s2\<lparr>events := events s2 @ [ChangeState ''gameover'' False (Some ''chaos'')]\<rparr>
                  else
                    (let s3 = entityUpdates deltaTime s2;
                         s4 = updateKidSpawning newKid rnd deltaTime s3;
                         s5 = checkBookPickup s4;
                         s6 = checkBookSnatching s5;
                         s7 = checkBookShelving s6
                     in updateParticles deltaTime s7))))"

subsection \<open>Sample states\<close>

text \<open>The game data as \<^verbatim>\<open>enter()\<close> resets them.\<close>

definition initialGameData :: gameData where
  "initialGameData =
     \<lparr>chaosLevel = 0, maxChaos = 100, playerLevel = 1, xp = 0, xpToNext = 100,
      elapsedTime = 0, targetTime = 30 * 60, isPaused = False,
      booksCollected = 0, booksShelved = 0, kidsRepelled = 0\<rparr>"

text \<open>
  A player at the start position of \<^verbatim>\<open>initializeLevel\<close>, with room for one book; the
  centre of the player is at \<open>(66, 316)\<close>.
\<close>

definition librarian :: player where
  "librarian =
     \<lparr>playerX = 50, playerY = 300, playerWidth = 32, playerHeight = 32,
      stats = \<lparr>pickupRadius = 1, returnRadius = 1, carrySlots = 1, stamina = 40,
               maxStamina = 100, chaosDampening = 0, xpMultiplier = 1\<rparr>,
      repelRadius = 64, carriedBooks = []\<rparr>"

definition emptyLibrary :: world where
  "emptyLibrary =
     \<lparr>player = Some librarian, kids = [], books = [], shelves = [], particles = [],
      particlePool = 20, kidSpawnTimer = 10, kidSpawnInterval = 10, maxKids = 3,
      gameData = initialGameData, bgMusic = True, events = []\<rparr>"

definition redBook :: book where
  "redBook =
     \<lparr>bookX = 61, bookY = 311, bookWidth = 10, bookHeight = 10, color = ''red'',
      isHeld = False, isShelved = False\<rparr>"

definition redShelf :: shelf where
  "redShelf =
     \<lparr>shelfX = 100, shelfY = 300, shelfWidth = 64, shelfHeight = 32, shelfColor = ''red'',
      capacity = 1, slots = []\<rparr>"

text \<open>
  One red book on the floor under the player, who stands next to a red shelf with a free
  slot.
\<close>

definition readingRoom :: world where
  "readingRoom = emptyLibrary\<lparr>books := [redBook], shelves := [redShelf]\<rparr>"

definition thief :: "bookRef \<Rightarrow> kid" where
  "thief b =
     \<lparr>kidX = 50, kidY = 300, kidWidth = 32, kidHeight = 32, aggressionLevel = 1,
      state = ''carrying'', carriedBook = Some b, dropBookTimer = 3\<rparr>"

text \<open>Two kids next to the player, each carrying a book; the player has one free slot.\<close>

definition ambush :: world where
  "ambush =
     emptyLibrary\<lparr>books := [redBook\<lparr>isHeld := True\<rparr>, redBook\<lparr>isHeld := True\<rparr>],
                  kids := [thief 0, thief 1]\<rparr>"

definition plainKid :: "real \<Rightarrow> real \<Rightarrow> nat \<Rightarrow> kid" where
  "plainKid x y level =
     \<lparr>kidX = x, kidY = y, kidWidth = 32, kidHeight = 32, aggressionLevel = level,
      state = ''seeking'', carriedBook = None, dropBookTimer = 0\<rparr>"

text \<open>Entities that stand still, and a keyboard with no key pressed.\<close>

definition standStill :: "real \<Rightarrow> world \<Rightarrow> world" where
  "standStill deltaTime s = s"

definition noKey :: "string \<Rightarrow> bool" where
  "noKey key = False"

text \<open>
  One second before the target time, with a book on the floor and the chaos at its
  maximum.
\<close>

definition lastSecond :: world where
  "lastSecond =
     emptyLibrary\<lparr>books := [redBook],
                  gameData := initialGameData\<lparr>elapsedTime := 1799, chaosLevel := 100\<rparr>\<rparr>"

definition strayBook :: world where
  "strayBook = emptyLibrary\<lparr>books := [redBook]\<rparr>"

subsection \<open>Notions used in the properties\<close>



text \<open>
  The number of lists that refer to a book: the floor (the books of \<^verbatim>\<open>this.books\<close>
  that are neither held nor shelved), the player's carried list, the kids' carried
  books and the slots of the shelves.
\<close>

definition references :: "world \<Rightarrow> bookRef \<Rightarrow> nat" where
  "references s b =
     (if b < length (books s) \<and> \<not> isHeld (books s ! b) \<and> \<not> isShelved (books s ! b)
      then 1 else 0)
     + (case player s of None \<Rightarrow> 0 | Some p \<Rightarrow> count_list (carriedBooks p) b)
     + length (filter (\<lambda>k. carriedBook k = Some b) (kids s))
     + sum_list (map (\<lambda>sh. count_list (slots sh) b) (shelves s))"

text \<open>
  The upgrade interrupts pushed so far, and their number less the player's level: each
  level gained pushes one interrupt, so the difference stays as it is.
\<close>

definition upgradePushes :: "world \<Rightarrow> nat" where
  "upgradePushes s = count_list (events s) (PushState ''upgradeSelection'')"

definition interruptBalance :: "world \<Rightarrow> int" where
  "interruptBalance s = int (upgradePushes s) - int (playerLevel (gameData s))"

section \<open>Properties\<close>

subsection \<open>The level-up loop\<close>

lemma levelUpLoop_done:
  "xp (gameData s) < xpToNext (gameData s) \<Longrightarrow> levelUpLoop s = s"
  by (subst levelUpLoop.simps) simp

lemma levelUpLoop_step:
  "xpToNext (gameData s) \<le> xp (gameData s) \<Longrightarrow> levelUpLoop s = levelUpLoop (levelUp s)"
  by (subst levelUpLoop.simps) simp

lemma levelUpLoop_below:
  "xp (gameData (levelUpLoop s)) < xpToNext (gameData (levelUpLoop s))"
proof (induction s rule: levelUpLoop.induct)
  case (1 s)
  show ?case
  proof (cases "xpToNext (gameData s) \<le> xp (gameData s)")
    case True
    with 1 show ?thesis by (simp add: levelUpLoop_step)
  next
    case False
    then show ?thesis by (simp add: levelUpLoop_done)
  qed
qed

lemma levelUp_events: "events (levelUp s) = events s @ [PushState ''upgradeSelection'']"
  by (simp add: levelUp_def Let_def)

lemma levelUp_gameData:
  "gameData (levelUp s) =
     (gameData s)\<lparr>xp := xp (gameData s) - xpToNext (gameData s),
                  playerLevel := playerLevel (gameData s) + 1,
                  xpToNext := \<lfloor>100 * (1.45 :: real) ^ playerLevel (gameData s)\<rfloor>\<rparr>"
  by (simp add: levelUp_def Let_def)

lemma levelUp_player:
  "player (levelUp s) =
     (case player s of
        None \<Rightarrow> None
      | Some p \<Rightarrow> Some (p\<lparr>stats := (stats p)\<lparr>stamina := maxStamina (stats p)\<rparr>\<rparr>))"
  by (simp add: levelUp_def Let_def)

lemma gainXP_gameData:
  "gameData (gainXP amount s) =
     (gameData s)\<lparr>xp := xp (gameData s) +
        \<lfloor>amount * (case player s of
                      None \<Rightarrow> 1
                    | Some p \<Rightarrow> if getXPMultiplier p = 0 then 1 else getXPMultiplier p)\<rfloor>\<rparr>"
  by (simp add: gainXP_def Let_def split: option.splits)

lemma gainXP_player: "player (gainXP amount s) = player s"
  by (simp add: gainXP_def Let_def split: option.splits)

lemma gainXP_events: "events (gainXP amount s) = events s"
  by (simp add: gainXP_def Let_def split: option.splits)

text \<open>
  Claim C6. From \<open>xp = 50\<close>, \<open>xpToNext = 100\<close>, \<open>playerLevel = 1\<close>, with a player \<open>p\<close>
  whose multiplier is 1, \<^verbatim>\<open>awardXP(80)\<close> leaves \<open>xp = 30\<close>, \<open>playerLevel = 2\<close> and
  \<open>xpToNext = 145\<close>, which is \<open>floor (100 * 1.45 ^ 1)\<close>, and the rest of the game data as
  it was; the player is \<open>p\<close> with the stamina set to \<open>p\<close>'s maximum stamina and nothing else
  changed, and exactly one upgrade interrupt is pushed to the state manager.
\<close>

theorem awardXP_80_from_50:
  assumes "player s = Some p" and "getXPMultiplier p = 1"
    and "xp (gameData s) = 50" and "xpToNext (gameData s) = 100"
    and "playerLevel (gameData s) = 1"
  shows "gameData (awardXP 80 s) = (gameData s)\<lparr>xp := 30, playerLevel := 2, xpToNext := 145\<rparr> \<and>
         \<lfloor>100 * (1.45 :: real) ^ 1\<rfloor> = (145 :: int) \<and>
         player (awardXP 80 s) = Some (p\<lparr>stats := (stats p)\<lparr>stamina := maxStamina (stats p)\<rparr>\<rparr>) \<and>
         events (awardXP 80 s) = events s @ [PushState ''upgradeSelection'']"
proof -
  let ?s1 = "gainXP 80 s"
  have g: "gameData ?s1 = (gameData s)\<lparr>xp := 130\<rparr>"
    using assms by (simp add: gainXP_gameData)
  have first: "levelUpLoop ?s1 = levelUpLoop (levelUp ?s1)"
    using assms by (intro levelUpLoop_step) (simp add: g)
  have stop: "levelUpLoop (levelUp ?s1) = levelUp ?s1"
    using assms by (intro levelUpLoop_done) (simp add: g levelUp_gameData)
  have result: "awardXP 80 s = levelUp ?s1"
    by (simp add: awardXP_def first stop)
  show ?thesis
    unfolding result using assms
    by (simp add: g levelUp_gameData levelUp_player levelUp_events gainXP_player gainXP_events)
qed

theorem awardXP_80_from_50_witness:
  "player (emptyLibrary\<lparr>gameData := initialGameData\<lparr>xp := 50\<rparr>\<rparr>) = Some librarian \<and>
   getXPMultiplier librarian = 1 \<and>
   xp (gameData (emptyLibrary\<lparr>gameData := initialGameData\<lparr>xp := 50\<rparr>\<rparr>)) = 50 \<and>
   xpToNext (gameData (emptyLibrary\<lparr>gameData := initialGameData\<lparr>xp := 50\<rparr>\<rparr>)) = 100 \<and>
   playerLevel (gameData (emptyLibrary\<lparr>gameData := initialGameData\<lparr>xp := 50\<rparr>\<rparr>)) = 1 \<and>
   stamina (stats librarian) = 40 \<and> maxStamina (stats librarian) = 100 \<and>
   xp (gameData (awardXP 80 (emptyLibrary\<lparr>gameData := initialGameData\<lparr>xp := 50\<rparr>\<rparr>))) = 30 \<and>
   playerLevel (gameData (awardXP 80 (emptyLibrary\<lparr>gameData := initialGameData\<lparr>xp := 50\<rparr>\<rparr>))) = 2 \<and>
   xpToNext (gameData (awardXP 80 (emptyLibrary\<lparr>gameData := initialGameData\<lparr>xp := 50\<rparr>\<rparr>))) = 145 \<and>
   map_option (\<lambda>q. (stamina (stats q), maxStamina (stats q)))
     (player (awardXP 80 (emptyLibrary\<lparr>gameData := initialGameData\<lparr>xp := 50\<rparr>\<rparr>)))
     = Some (100, 100) \<and>
   events (awardXP 80 (emptyLibrary\<lparr>gameData := initialGameData\<lparr>xp := 50\<rparr>\<rparr>)) =
     [PushState ''upgradeSelection'']"
  using awardXP_80_from_50 [of "emptyLibrary\<lparr>gameData := initialGameData\<lparr>xp := 50\<rparr>\<rparr>" librarian]
  by (simp add: emptyLibrary_def initialGameData_def librarian_def getXPMultiplier_def)

text \<open>
  Claim C7. Let \<open>x\<close> be the experience after the applied amount has been added, \<open>t\<close> the
  threshold and \<open>l\<close> the level before the call. When \<open>x\<close> crosses exactly two thresholds
  (\<open>t\<close>, then the threshold \<open>floor (100 * 1.45 ^ l)\<close> of level \<open>l + 1\<close>, but not the one
  of level \<open>l + 2\<close>), \<^verbatim>\<open>awardXP\<close> runs the loop body exactly twice: exactly two upgrade
  interrupts are pushed, the first round takes the level from \<open>l\<close> to \<open>l + 1\<close> and the
  second from \<open>l + 1\<close> to \<open>l + 2\<close> (1 to 2, then 2 to 3, from level 1). After every call
  of \<^verbatim>\<open>awardXP\<close>, \<open>xp < xpToNext\<close>.
\<close>

theorem awardXP_two_levels:
  "(xpToNext (gameData s) \<le> xp (gameData (gainXP amount s)) \<and>
    \<lfloor>100 * (1.45 :: real) ^ playerLevel (gameData s)\<rfloor>
      \<le> xp (gameData (gainXP amount s)) - xpToNext (gameData s) \<and>
    xp (gameData (gainXP amount s)) - xpToNext (gameData s)
        - \<lfloor>100 * (1.45 :: real) ^ playerLevel (gameData s)\<rfloor>
      < \<lfloor>100 * (1.45 :: real) ^ (playerLevel (gameData s) + 1)\<rfloor>
    \<longrightarrow>
      awardXP amount s = levelUp (levelUp (gainXP amount s)) \<and>
      events (awardXP amount s) =
        events s @ [PushState ''upgradeSelection'', PushState ''upgradeSelection''] \<and>
      playerLevel (gameData (levelUp (gainXP amount s))) = playerLevel (gameData s) + 1 \<and>
      playerLevel (gameData (awardXP amount s)) = playerLevel (gameData s) + 2 \<and>
      xp (gameData (awardXP amount s)) =
        xp (gameData (gainXP amount s)) - xpToNext (gameData s)
          - \<lfloor>100 * (1.45 :: real) ^ playerLevel (gameData s)\<rfloor>) \<and>
   xp (gameData (awardXP amount s)) < xpToNext (gameData (awardXP amount s))"
proof (intro conjI impI)
  let ?s1 = "gainXP amount s"
  assume h: "xpToNext (gameData s) \<le> xp (gameData ?s1) \<and>
    \<lfloor>100 * (1.45 :: real) ^ playerLevel (gameData s)\<rfloor>
      \<le> xp (gameData ?s1) - xpToNext (gameData s) \<and>
    xp (gameData ?s1) - xpToNext (gameData s)
        - \<lfloor>100 * (1.45 :: real) ^ playerLevel (gameData s)\<rfloor>
      < \<lfloor>100 * (1.45 :: real) ^ (playerLevel (gameData s) + 1)\<rfloor>"
  have same: "xpToNext (gameData ?s1) = xpToNext (gameData s)"
    "playerLevel (gameData ?s1) = playerLevel (gameData s)"
    by (simp_all add: gainXP_gameData)
  have "levelUpLoop ?s1 = levelUpLoop (levelUp ?s1)"
    using h by (intro levelUpLoop_step) (simp add: same)
  also have "\<dots> = levelUpLoop (levelUp (levelUp ?s1))"
    using h by (intro levelUpLoop_step) (simp add: levelUp_gameData same)
  also have "\<dots> = levelUp (levelUp ?s1)"
    using h by (intro levelUpLoop_done) (simp add: levelUp_gameData same)
  finally show result: "awardXP amount s = levelUp (levelUp ?s1)"
    by (simp add: awardXP_def)
  show "events (awardXP amount s) =
        events s @ [PushState ''upgradeSelection'', PushState ''upgradeSelection'']"
    by (simp add: result levelUp_events gainXP_events)
  show "playerLevel (gameData (levelUp ?s1)) = playerLevel (gameData s) + 1"
    by (simp add: levelUp_gameData same)
  show "playerLevel (gameData (awardXP amount s)) = playerLevel (gameData s) + 2"
    by (simp add: result levelUp_gameData same)
  show "xp (gameData (awardXP amount s)) =
        xp (gameData ?s1) - xpToNext (gameData s)
          - \<lfloor>100 * (1.45 :: real) ^ playerLevel (gameData s)\<rfloor>"
    by (simp add: result levelUp_gameData same)
next
  show "xp (gameData (awardXP amount s)) < xpToNext (gameData (awardXP amount s))"
    by (simp add: awardXP_def levelUpLoop_below)
qed

theorem awardXP_two_levels_witness:
  "xpToNext (gameData emptyLibrary) \<le> xp (gameData (gainXP 250 emptyLibrary)) \<and>
   \<lfloor>100 * (1.45 :: real) ^ playerLevel (gameData emptyLibrary)\<rfloor>
     \<le> xp (gameData (gainXP 250 emptyLibrary)) - xpToNext (gameData emptyLibrary) \<and>
   xp (gameData (gainXP 250 emptyLibrary)) - xpToNext (gameData emptyLibrary)
       - \<lfloor>100 * (1.45 :: real) ^ playerLevel (gameData emptyLibrary)\<rfloor>
     < \<lfloor>100 * (1.45 :: real) ^ (playerLevel (gameData emptyLibrary) + 1)\<rfloor> \<and>
   events (awardXP 250 emptyLibrary) =
     [PushState ''upgradeSelection'', PushState ''upgradeSelection''] \<and>
   playerLevel (gameData (levelUp (gainXP 250 emptyLibrary))) = 2 \<and>
   playerLevel (gameData (awardXP 250 emptyLibrary)) = 3 \<and>
   xp (gameData (awardXP 250 emptyLibrary)) = 5"
proof -
  have g: "gameData (gainXP 250 emptyLibrary) = initialGameData\<lparr>xp := 250\<rparr>"
    by (simp add: gainXP_gameData emptyLibrary_def librarian_def getXPMultiplier_def
        initialGameData_def)
  have e: "gameData emptyLibrary = initialGameData" "events emptyLibrary = []"
    by (simp_all add: emptyLibrary_def)
  have t3: "\<lfloor>100 * (1.45 :: real) ^ 2\<rfloor> = (210 :: int)"
    by (simp add: power2_eq_square)
  have h: "xpToNext (gameData emptyLibrary) \<le> xp (gameData (gainXP 250 emptyLibrary)) \<and>
    \<lfloor>100 * (1.45 :: real) ^ playerLevel (gameData emptyLibrary)\<rfloor>
      \<le> xp (gameData (gainXP 250 emptyLibrary)) - xpToNext (gameData emptyLibrary) \<and>
    xp (gameData (gainXP 250 emptyLibrary)) - xpToNext (gameData emptyLibrary)
        - \<lfloor>100 * (1.45 :: real) ^ playerLevel (gameData emptyLibrary)\<rfloor>
      < \<lfloor>100 * (1.45 :: real) ^ (playerLevel (gameData emptyLibrary) + 1)\<rfloor>"
    using t3 by (simp add: g e initialGameData_def)
  from awardXP_two_levels [of emptyLibrary 250] h
  have "events (awardXP 250 emptyLibrary) =
          events emptyLibrary @ [PushState ''upgradeSelection'', PushState ''upgradeSelection'']"
    and "playerLevel (gameData (levelUp (gainXP 250 emptyLibrary)))
           = playerLevel (gameData emptyLibrary) + 1"
    and "playerLevel (gameData (awardXP 250 emptyLibrary))
           = playerLevel (gameData emptyLibrary) + 2"
    and "xp (gameData (awardXP 250 emptyLibrary)) =
           xp (gameData (gainXP 250 emptyLibrary)) - xpToNext (gameData emptyLibrary)
             - \<lfloor>100 * (1.45 :: real) ^ playerLevel (gameData emptyLibrary)\<rfloor>"
    by blast+
  with h show ?thesis
    by (simp add: g e initialGameData_def)
qed

subsection \<open>The spawn scheduler\<close>

lemma spawn_maxKids:
  "maxKids (updateKidSpawning newKid rnd deltaTime s) =
     (if elapsedTime (gameData s) / 60 > 5 then 10
      else if elapsedTime (gameData s) / 60 > 2 then 5 else maxKids s)"
  by (simp add: updateKidSpawning_def Let_def)

lemma spawn_index:
  assumes "0 \<le> rnd" and "rnd < 1"
  shows "spawnPoints ! nat \<lfloor>rnd * real (length spawnPoints)\<rfloor> \<in> set spawnPoints"
proof -
  have four: "length spawnPoints = 4" by (simp add: spawnPoints_def)
  have "rnd * 4 < 4" using assms by simp
  then have "\<lfloor>rnd * 4\<rfloor> < 4" by (simp add: floor_less_iff)
  then have "nat \<lfloor>rnd * 4\<rfloor> < 4" by linarith
  then have "nat \<lfloor>rnd * real (length spawnPoints)\<rfloor> < length spawnPoints"
    by (simp add: four)
  then show ?thesis by (rule nth_mem)
qed

text \<open>
  Claim C8. \<^verbatim>\<open>updateKidSpawning\<close> first sets \<^verbatim>\<open>maxKids\<close> to the cap of the tick: 10
  after more than 5 minutes, 5 after more than 2, and the stored value otherwise, which
  is the 3 that \<^verbatim>\<open>enter()\<close> stores together with \<open>elapsedTime = 0\<close>; so the cap is 3 at
  \<open>elapsedTime = 0\<close> and 10 at \<open>elapsedTime = 301\<close>. When the number of kids has reached
  the cap, nothing else changes: no kid is spawned and the timer is left as it is.
  Otherwise the timer is decremented by \<open>deltaTime\<close>: while it stays above zero nothing
  else changes, and when it is at or below zero exactly one kid is appended, placed at
  the spawn point drawn, which is one of the four fixed points, and the timer is reset to
  the interval, which is 10.
\<close>

theorem spawn_scheduler:
  fixes s :: world and deltaTime rnd :: real and newKid :: "real \<Rightarrow> real \<Rightarrow> nat \<Rightarrow> kid"
  defines "cap \<equiv> (if elapsedTime (gameData s) / 60 > 5 then 10
                   else if elapsedTime (gameData s) / 60 > 2 then 5 else maxKids s)"
    and "spawnPoint \<equiv> spawnPoints ! nat \<lfloor>rnd * real (length spawnPoints)\<rfloor>"
    and "level \<equiv> (if elapsedTime (gameData s) / 60 \<ge> 10 then 3
                    else if elapsedTime (gameData s) / 60 \<ge> 5 then 2 else 1 :: nat)"
  shows
  "maxKids (updateKidSpawning newKid rnd deltaTime s) = cap \<and>
   (cap \<le> length (kids s) \<longrightarrow>
      updateKidSpawning newKid rnd deltaTime s = s\<lparr>maxKids := cap\<rparr>) \<and>
   (length (kids s) < cap \<and> 0 < kidSpawnTimer s - deltaTime \<longrightarrow>
      updateKidSpawning newKid rnd deltaTime s =
        s\<lparr>maxKids := cap, kidSpawnTimer := kidSpawnTimer s - deltaTime\<rparr>) \<and>
   (length (kids s) < cap \<and> kidSpawnTimer s - deltaTime \<le> 0 \<longrightarrow>
      updateKidSpawning newKid rnd deltaTime s =
        s\<lparr>maxKids := cap,
          kids := kids s @ [newKid (fst spawnPoint) (snd spawnPoint) level],
          kidSpawnTimer := kidSpawnInterval s\<rparr>) \<and>
   (0 \<le> rnd \<and> rnd < 1 \<longrightarrow> spawnPoint \<in> set spawnPoints) \<and>
   spawnPoints = [(50, 520), (1550, 520), (800, 50), (800, 990)] \<and>
   (elapsedTime (gameData s) = 0 \<and> maxKids s = 3 \<longrightarrow>
      maxKids (updateKidSpawning newKid rnd deltaTime s) = 3) \<and>
   maxKids (updateKidSpawning newKid rnd deltaTime
              (s\<lparr>maxKids := 3, gameData := initialGameData\<rparr>)) = 3 \<and>
   (elapsedTime (gameData s) = 301 \<longrightarrow>
      maxKids (updateKidSpawning newKid rnd deltaTime s) = 10) \<and>
   (length (kids s) < cap \<and> kidSpawnTimer s - deltaTime \<le> 0 \<and> kidSpawnInterval s = 10 \<longrightarrow>
      kidSpawnTimer (updateKidSpawning newKid rnd deltaTime s) = 10)"
proof -
  have ramp: "(if elapsedTime (gameData s) / 60 > 5 then s\<lparr>maxKids := 10\<rparr>
               else if elapsedTime (gameData s) / 60 > 2 then s\<lparr>maxKids := 5\<rparr>
               else s) = s\<lparr>maxKids := cap\<rparr>"
    by (simp add: cap_def)
  have body: "updateKidSpawning newKid rnd deltaTime s =
      (if cap \<le> length (kids s) then s\<lparr>maxKids := cap\<rparr>
       else if kidSpawnTimer s - deltaTime \<le> 0
       then s\<lparr>maxKids := cap,
              kids := kids s @ [newKid (fst spawnPoint) (snd spawnPoint) level],
              kidSpawnTimer := kidSpawnInterval s\<rparr>
       else s\<lparr>maxKids := cap, kidSpawnTimer := kidSpawnTimer s - deltaTime\<rparr>)"
    unfolding updateKidSpawning_def Let_def ramp
    by (simp add: spawnPoint_def level_def)
  have m: "maxKids (updateKidSpawning newKid rnd deltaTime s) = cap"
    by (simp add: body)
  have capped: "updateKidSpawning newKid rnd deltaTime s = s\<lparr>maxKids := cap\<rparr>"
    if "cap \<le> length (kids s)"
    using that by (simp add: body)
  have waiting: "updateKidSpawning newKid rnd deltaTime s =
        s\<lparr>maxKids := cap, kidSpawnTimer := kidSpawnTimer s - deltaTime\<rparr>"
    if "length (kids s) < cap \<and> 0 < kidSpawnTimer s - deltaTime"
    using that by (simp add: body)
  have due: "updateKidSpawning newKid rnd deltaTime s =
        s\<lparr>maxKids := cap,
          kids := kids s @ [newKid (fst spawnPoint) (snd spawnPoint) level],
          kidSpawnTimer := kidSpawnInterval s\<rparr>"
    if "length (kids s) < cap \<and> kidSpawnTimer s - deltaTime \<le> 0"
    using that by (simp add: body)
  have point: "spawnPoint \<in> set spawnPoints" if "0 \<le> rnd \<and> rnd < 1"
    using that spawn_index [of rnd] by (simp add: spawnPoint_def)
  have points: "spawnPoints = [(50, 520), (1550, 520), (800, 50), (800, 990)]"
    by (simp add: spawnPoints_def)
  have start: "maxKids (updateKidSpawning newKid rnd deltaTime s) = 3"
    if "elapsedTime (gameData s) = 0 \<and> maxKids s = 3"
    using that by (simp add: m cap_def)
  have entered: "maxKids (updateKidSpawning newKid rnd deltaTime
              (s\<lparr>maxKids := 3, gameData := initialGameData\<rparr>)) = 3"
    by (simp add: spawn_maxKids initialGameData_def)
  have late: "maxKids (updateKidSpawning newKid rnd deltaTime s) = 10"
    if "elapsedTime (gameData s) = 301"
    using that by (simp add: m cap_def)
  have reset: "kidSpawnTimer (updateKidSpawning newKid rnd deltaTime s) = 10"
    if "length (kids s) < cap \<and> kidSpawnTimer s - deltaTime \<le> 0 \<and> kidSpawnInterval s = 10"
    using that by (simp add: body)
  from m capped waiting due point points start entered late reset
  show ?thesis by blast
qed

theorem spawn_scheduler_witness:
  "updateKidSpawning plainKid 0 1 (emptyLibrary\<lparr>kids := [thief 0, thief 0, thief 0]\<rparr>)
     = emptyLibrary\<lparr>kids := [thief 0, thief 0, thief 0]\<rparr> \<and>
   elapsedTime (gameData emptyLibrary) = 0 \<and> maxKids emptyLibrary = 3 \<and>
   maxKids (updateKidSpawning plainKid 0 1 emptyLibrary) = 3 \<and>
   updateKidSpawning plainKid 0 1 emptyLibrary = emptyLibrary\<lparr>kidSpawnTimer := 9\<rparr> \<and>
   updateKidSpawning plainKid (1 / 2) 10 emptyLibrary =
     emptyLibrary\<lparr>kids := [plainKid 800 50 1]\<rparr> \<and>
   kidSpawnTimer (updateKidSpawning plainKid (1 / 2) 10 emptyLibrary) = 10 \<and>
   (800, 50) \<in> set spawnPoints \<and>
   updateKidSpawning plainKid 0 1
       (emptyLibrary\<lparr>maxKids := 5, kids := [thief 0, thief 0, thief 0, thief 0, thief 0],
          gameData := initialGameData\<lparr>elapsedTime := 301\<rparr>\<rparr>) =
     emptyLibrary\<lparr>maxKids := 10, kids := [thief 0, thief 0, thief 0, thief 0, thief 0],
        kidSpawnTimer := 9, gameData := initialGameData\<lparr>elapsedTime := 301\<rparr>\<rparr>"
proof -
  let ?full = "emptyLibrary\<lparr>kids := [thief 0, thief 0, thief 0]\<rparr>"
  let ?late = "emptyLibrary\<lparr>maxKids := 5, kids := [thief 0, thief 0, thief 0, thief 0, thief 0],
          gameData := initialGameData\<lparr>elapsedTime := 301\<rparr>\<rparr>"
  have e: "elapsedTime (gameData emptyLibrary) = 0" "maxKids emptyLibrary = 3"
    "kids emptyLibrary = []" "kidSpawnTimer emptyLibrary = 10"
    "kidSpawnInterval emptyLibrary = 10"
    by (simp_all add: emptyLibrary_def initialGameData_def)
  from spawn_scheduler [where s = ?full and deltaTime = 1 and newKid = plainKid and rnd = 0]
  have capped: "updateKidSpawning plainKid 0 1 ?full = ?full"
    by (simp add: emptyLibrary_def initialGameData_def)
  from spawn_scheduler [where s = emptyLibrary and deltaTime = 1 and newKid = plainKid and rnd = 0]
  have waiting: "maxKids (updateKidSpawning plainKid 0 1 emptyLibrary) = 3"
    "updateKidSpawning plainKid 0 1 emptyLibrary = emptyLibrary\<lparr>kidSpawnTimer := 9\<rparr>"
    by (simp_all add: emptyLibrary_def initialGameData_def)
  from spawn_scheduler [where s = emptyLibrary and deltaTime = 10 and newKid = plainKid
      and rnd = "1 / 2"]
  have due: "updateKidSpawning plainKid (1 / 2) 10 emptyLibrary =
               emptyLibrary\<lparr>kids := [plainKid 800 50 1]\<rparr>"
    "kidSpawnTimer (updateKidSpawning plainKid (1 / 2) 10 emptyLibrary) = 10"
    "(800, 50) \<in> set spawnPoints"
    by (simp_all add: spawnPoints_def emptyLibrary_def initialGameData_def)
  from spawn_scheduler [where s = ?late and deltaTime = 1 and newKid = plainKid and rnd = 0]
  have late: "updateKidSpawning plainKid 0 1 ?late =
     emptyLibrary\<lparr>maxKids := 10, kids := [thief 0, thief 0, thief 0, thief 0, thief 0],
        kidSpawnTimer := 9, gameData := initialGameData\<lparr>elapsedTime := 301\<rparr>\<rparr>"
    by (simp add: emptyLibrary_def initialGameData_def)
  from capped waiting due late e show ?thesis
    by simp
qed

subsection \<open>The chaos meter\<close>

text \<open>
  Claim C9. \<^verbatim>\<open>updateChaos\<close> counts the books that are neither held nor shelved. With
  such books on the floor it adds
  \<open>booksOnFloor * 0.1 * deltaTime * (1 - chaosDampening / 100)\<close> to the chaos level, where
  the dampening is the player's and 0 without a player; with a clear floor and a positive
  chaos level it subtracts \<open>0.5 * deltaTime\<close>; the result is clamped to \<open>[0, maxChaos]\<close>,
  and nothing else changes. With no floor book, chaos level 10 and \<open>deltaTime = 1\<close> the
  result is 9.5; with two floor books, dampening 0 and \<open>deltaTime = 1\<close> the level grows by
  0.2 (where the clamp does not cut).
\<close>

theorem updateChaos_formula:
  "booksOnFloor s = length (filter (\<lambda>b. \<not> isHeld b \<and> \<not> isShelved b) (books s)) \<and>
   updateChaos deltaTime s =
     s\<lparr>gameData := (gameData s)\<lparr>chaosLevel :=
         max 0 (min (maxChaos (gameData s))
           (if 0 < booksOnFloor s
            then chaosLevel (gameData s) +
                   real (booksOnFloor s) * 0.1 * deltaTime
                     * (1 - (case player s of None \<Rightarrow> 0 | Some p \<Rightarrow> chaosDampening (stats p)) / 100)
            else if 0 < chaosLevel (gameData s)
            then chaosLevel (gameData s) - 0.5 * deltaTime
            else chaosLevel (gameData s)))\<rparr>\<rparr> \<and>
   (length (filter (\<lambda>b. \<not> isHeld b \<and> \<not> isShelved b) (books s)) = 0 \<and>
    chaosLevel (gameData s) = 10 \<and> 9.5 \<le> maxChaos (gameData s) \<longrightarrow>
      chaosLevel (gameData (updateChaos 1 s)) = 9.5) \<and>
   (length (filter (\<lambda>b. \<not> isHeld b \<and> \<not> isShelved b) (books s)) = 2 \<and>
    (case player s of None \<Rightarrow> 0 | Some p \<Rightarrow> chaosDampening (stats p)) = 0 \<and>
    0 \<le> chaosLevel (gameData s) + 0.2 \<and> chaosLevel (gameData s) + 0.2 \<le> maxChaos (gameData s) \<longrightarrow>
      chaosLevel (gameData (updateChaos 1 s)) = chaosLevel (gameData s) + 0.2)"
  by (simp add: updateChaos_def booksOnFloor_def Let_def)

theorem updateChaos_formula_witness:
  "length (filter (\<lambda>b. \<not> isHeld b \<and> \<not> isShelved b)
     (books (emptyLibrary\<lparr>gameData := initialGameData\<lparr>chaosLevel := 10\<rparr>\<rparr>))) = 0 \<and>
   chaosLevel (gameData (emptyLibrary\<lparr>gameData := initialGameData\<lparr>chaosLevel := 10\<rparr>\<rparr>)) = 10 \<and>
   9.5 \<le> maxChaos (gameData (emptyLibrary\<lparr>gameData := initialGameData\<lparr>chaosLevel := 10\<rparr>\<rparr>)) \<and>
   chaosLevel (gameData
     (updateChaos 1 (emptyLibrary\<lparr>gameData := initialGameData\<lparr>chaosLevel := 10\<rparr>\<rparr>))) = 9.5 \<and>
   booksOnFloor (emptyLibrary\<lparr>player := None,
     books := [redBook, redBook\<lparr>isHeld := True\<rparr>, redBook\<lparr>isShelved := True\<rparr>, redBook]\<rparr>) = 2 \<and>
   chaosLevel (gameData (updateChaos 1 (emptyLibrary\<lparr>player := None,
     books := [redBook, redBook\<lparr>isHeld := True\<rparr>, redBook\<lparr>isShelved := True\<rparr>, redBook]\<rparr>))) = 0.2 \<and>
   chaosLevel (gameData (updateChaos 1
     (emptyLibrary\<lparr>player := Some (librarian\<lparr>stats := (stats librarian)\<lparr>chaosDampening := 50\<rparr>\<rparr>),
        books := [redBook]\<rparr>))) = 0.05 \<and>
   chaosLevel (gameData (updateChaos 10
     (emptyLibrary\<lparr>gameData := initialGameData\<lparr>chaosLevel := 3\<rparr>\<rparr>))) = 0 \<and>
   chaosLevel (gameData (updateChaos 1
     (emptyLibrary\<lparr>books := [redBook], gameData := initialGameData\<lparr>chaosLevel := 99.95\<rparr>\<rparr>))) = 100"
  using updateChaos_formula
      [of "emptyLibrary\<lparr>gameData := initialGameData\<lparr>chaosLevel := 10\<rparr>\<rparr>" 1]
    updateChaos_formula [of "emptyLibrary\<lparr>player := None,
     books := [redBook, redBook\<lparr>isHeld := True\<rparr>, redBook\<lparr>isShelved := True\<rparr>, redBook]\<rparr>" 1]
    updateChaos_formula [of
      "emptyLibrary\<lparr>player := Some (librarian\<lparr>stats := (stats librarian)\<lparr>chaosDampening := 50\<rparr>\<rparr>),
        books := [redBook]\<rparr>" 1]
    updateChaos_formula [of "emptyLibrary\<lparr>gameData := initialGameData\<lparr>chaosLevel := 3\<rparr>\<rparr>" 10]
    updateChaos_formula [of
      "emptyLibrary\<lparr>books := [redBook], gameData := initialGameData\<lparr>chaosLevel := 99.95\<rparr>\<rparr>" 1]
  by (simp add: emptyLibrary_def initialGameData_def redBook_def librarian_def)

subsection \<open>The end of a run\<close>

text \<open>
  Claim C10. In a tick that is not paused and whose time advance reaches the target
  time, \<^verbatim>\<open>update\<close> requests the victory transition and returns: the only call to the
  state manager is the change to game over with \<open>won = true\<close>, the chaos update does
  not run and the defeat check is not reached, whatever the chaos level is.
\<close>

theorem victory_before_defeat:
  assumes "\<not> isKeyPressed ''p''" and "\<not> isKeyPressed ''Escape''"
    and "\<not> isPaused (gameData s)"
    and "targetTime (gameData s) \<le> elapsedTime (gameData s) + deltaTime"
  shows "update entityUpdates newKid isKeyPressed rnd deltaTime s =
           s\<lparr>gameData := (gameData s)\<lparr>elapsedTime := elapsedTime (gameData s) + deltaTime\<rparr>,
             events := events s @ [ChangeState ''gameover'' True None]\<rparr>"
  using assms by (simp add: update_def Let_def)

theorem victory_before_defeat_witness:
  "\<not> noKey ''p'' \<and> \<not> noKey ''Escape'' \<and> \<not> isPaused (gameData lastSecond) \<and>
   targetTime (gameData lastSecond) \<le> elapsedTime (gameData lastSecond) + 1 \<and>
   maxChaos (gameData (updateChaos 1 lastSecond))
     \<le> chaosLevel (gameData (updateChaos 1 lastSecond)) \<and>
   events (update standStill plainKid noKey 0 1 lastSecond)
     = [ChangeState ''gameover'' True None] \<and>
   chaosLevel (gameData (update standStill plainKid noKey 0 1 lastSecond)) = 100"
  using victory_before_defeat [of noKey lastSecond 1 standStill plainKid 0]
  by (simp add: noKey_def lastSecond_def emptyLibrary_def initialGameData_def updateChaos_def
      booksOnFloor_def Let_def redBook_def librarian_def)

subsection \<open>What the interaction passes keep\<close>

lemma levelUpLoop_pres:
  assumes step: "\<And>t. P t \<Longrightarrow> P (levelUp t)" and start: "P s"
  shows "P (levelUpLoop s)"
  using start
proof (induction s rule: levelUpLoop.induct)
  case (1 s)
  show ?case
  proof (cases "xpToNext (gameData s) \<le> xp (gameData s)")
    case True
    with 1 step show ?thesis by (simp add: levelUpLoop_step)
  next
    case False
    with 1 show ?thesis by (simp add: levelUpLoop_done)
  qed
qed

lemma awardXP_chaos:
  "chaosLevel (gameData (awardXP amount s)) = chaosLevel (gameData s) \<and>
   maxChaos (gameData (awardXP amount s)) = maxChaos (gameData s)"
  unfolding awardXP_def
  by (rule levelUpLoop_pres) (simp_all add: levelUp_gameData gainXP_gameData)







lemma fold_pres:
  assumes "\<And>i t. P t \<Longrightarrow> P (f i t)" and "P s"
  shows "P (fold f xs s)"
  using assms(2) by (induction xs arbitrary: s) (simp_all add: assms(1))

lemma pickupStep_chaos:
  "chaosLevel (gameData (pickupStep r cx cy i s)) \<le> chaosLevel (gameData s) \<and>
   maxChaos (gameData (pickupStep r cx cy i s)) = maxChaos (gameData s)"
  by (simp add: pickupStep_def Let_def pickupBook_def awardXP_chaos split: option.splits)

lemma snatchStep_chaos:
  "chaosLevel (gameData (snatchStep r cx cy k s)) \<le> chaosLevel (gameData s) \<and>
   maxChaos (gameData (snatchStep r cx cy k s)) = maxChaos (gameData s)"
  by (simp add: snatchStep_def Let_def pickupBook_def awardXP_chaos split: option.splits)

lemma shelvingStep_chaos:
  "chaosLevel (gameData (shelvingStep r j s)) \<le> chaosLevel (gameData s) \<and>
   maxChaos (gameData (shelvingStep r j s)) = maxChaos (gameData s)"
  by (simp add: shelvingStep_def Let_def shelveBook_def addBook_def awardXP_chaos split: option.splits)


lemma checkBookPickup_chaos:
  "chaosLevel (gameData (checkBookPickup s)) \<le> chaosLevel (gameData s) \<and>
   maxChaos (gameData (checkBookPickup s)) = maxChaos (gameData s)"
proof (cases "player s")
  case None
  then show ?thesis by (simp add: checkBookPickup_def)
next
  case (Some p)
  have "chaosLevel (gameData (fold (pickupStep r cx cy) xs s)) \<le> chaosLevel (gameData s) \<and>
        maxChaos (gameData (fold (pickupStep r cx cy) xs s)) = maxChaos (gameData s)"
    for r cx cy xs
  proof (rule fold_pres)
    fix i and t :: world
    assume "chaosLevel (gameData t) \<le> chaosLevel (gameData s) \<and>
            maxChaos (gameData t) = maxChaos (gameData s)"
    with pickupStep_chaos [of r cx cy i t]
    show "chaosLevel (gameData (pickupStep r cx cy i t)) \<le> chaosLevel (gameData s) \<and>
          maxChaos (gameData (pickupStep r cx cy i t)) = maxChaos (gameData s)"
      by simp
  qed simp
  with Some show ?thesis by (simp add: checkBookPickup_def)
qed

lemma checkBookSnatching_chaos:
  "chaosLevel (gameData (checkBookSnatching s)) \<le> chaosLevel (gameData s) \<and>
   maxChaos (gameData (checkBookSnatching s)) = maxChaos (gameData s)"
proof (cases "player s")
  case None
  then show ?thesis by (simp add: checkBookSnatching_def)
next
  case (Some p)
  have "chaosLevel (gameData (fold (snatchStep r cx cy) xs s)) \<le> chaosLevel (gameData s) \<and>
        maxChaos (gameData (fold (snatchStep r cx cy) xs s)) = maxChaos (gameData s)"
    for r cx cy xs
  proof (rule fold_pres)
    fix i and t :: world
    assume "chaosLevel (gameData t) \<le> chaosLevel (gameData s) \<and>
            maxChaos (gameData t) = maxChaos (gameData s)"
    with snatchStep_chaos [of r cx cy i t]
    show "chaosLevel (gameData (snatchStep r cx cy i t)) \<le> chaosLevel (gameData s) \<and>
          maxChaos (gameData (snatchStep r cx cy i t)) = maxChaos (gameData s)"
      by simp
  qed simp
  with Some show ?thesis by (simp add: checkBookSnatching_def)
qed

lemma checkBookShelving_chaos:
  "chaosLevel (gameData (checkBookShelving s)) \<le> chaosLevel (gameData s) \<and>
   maxChaos (gameData (checkBookShelving s)) = maxChaos (gameData s)"
proof (cases "player s")
  case None
  then show ?thesis by (simp add: checkBookShelving_def)
next
  case (Some p)
  have "chaosLevel (gameData (fold (shelvingStep r) xs s)) \<le> chaosLevel (gameData s) \<and>
        maxChaos (gameData (fold (shelvingStep r) xs s)) = maxChaos (gameData s)"
    for r xs
  proof (rule fold_pres)
    fix i and t :: world
    assume "chaosLevel (gameData t) \<le> chaosLevel (gameData s) \<and>
            maxChaos (gameData t) = maxChaos (gameData s)"
    with shelvingStep_chaos [of r i t]
    show "chaosLevel (gameData (shelvingStep r i t)) \<le> chaosLevel (gameData s) \<and>
          maxChaos (gameData (shelvingStep r i t)) = maxChaos (gameData s)"
      by simp
  qed simp
  with Some show ?thesis by (simp add: checkBookShelving_def)
qed












lemma awardXP_counters:
  "chaosLevel (gameData (awardXP amount s)) = chaosLevel (gameData s) \<and>
   maxChaos (gameData (awardXP amount s)) = maxChaos (gameData s) \<and>
   booksCollected (gameData (awardXP amount s)) = booksCollected (gameData s) \<and>
   booksShelved (gameData (awardXP amount s)) = booksShelved (gameData s)"
  unfolding awardXP_def
  by (rule levelUpLoop_pres) (simp_all add: levelUp_gameData gainXP_gameData)

lemma pickupStep_delta:
  "maxChaos (gameData (pickupStep r cx cy i s)) = maxChaos (gameData s) \<and>
   booksCollected (gameData s) \<le> booksCollected (gameData (pickupStep r cx cy i s)) \<and>
   2 * chaosLevel (gameData (pickupStep r cx cy i s))
       + real (booksCollected (gameData (pickupStep r cx cy i s)))
     = 2 * chaosLevel (gameData s) + real (booksCollected (gameData s))"
  by (simp add: pickupStep_def Let_def pickupBook_def awardXP_counters split: option.splits)

lemma snatchStep_delta:
  "maxChaos (gameData (snatchStep r cx cy k s)) = maxChaos (gameData s) \<and>
   booksCollected (gameData s) \<le> booksCollected (gameData (snatchStep r cx cy k s)) \<and>
   4 * chaosLevel (gameData (snatchStep r cx cy k s))
       + 3 * real (booksCollected (gameData (snatchStep r cx cy k s)))
     = 4 * chaosLevel (gameData s) + 3 * real (booksCollected (gameData s))"
  by (simp add: snatchStep_def Let_def pickupBook_def awardXP_counters split: option.splits)

lemma shelvingStep_delta:
  "maxChaos (gameData (shelvingStep r j s)) = maxChaos (gameData s) \<and>
   booksShelved (gameData s) \<le> booksShelved (gameData (shelvingStep r j s)) \<and>
   chaosLevel (gameData (shelvingStep r j s))
       + real (booksShelved (gameData (shelvingStep r j s)))
     = chaosLevel (gameData s) + real (booksShelved (gameData s))"
  by (simp add: shelvingStep_def Let_def shelveBook_def addBook_def awardXP_counters
      split: option.splits)

lemma checkBookPickup_delta:
  "maxChaos (gameData (checkBookPickup s)) = maxChaos (gameData s) \<and>
   booksCollected (gameData s) \<le> booksCollected (gameData (checkBookPickup s)) \<and>
   2 * chaosLevel (gameData (checkBookPickup s))
       + real (booksCollected (gameData (checkBookPickup s)))
     = 2 * chaosLevel (gameData s) + real (booksCollected (gameData s))"
proof (cases "player s")
  case None
  then show ?thesis by (simp add: checkBookPickup_def)
next
  case (Some p)
  have "maxChaos (gameData (fold (pickupStep r cx cy) xs s)) = maxChaos (gameData s) \<and>
        booksCollected (gameData s) \<le> booksCollected (gameData (fold (pickupStep r cx cy) xs s)) \<and>
        2 * chaosLevel (gameData (fold (pickupStep r cx cy) xs s))
            + real (booksCollected (gameData (fold (pickupStep r cx cy) xs s)))
          = 2 * chaosLevel (gameData s) + real (booksCollected (gameData s))"
    for r cx cy xs
  proof (rule fold_pres)
    fix i and t :: world
    assume "maxChaos (gameData t) = maxChaos (gameData s) \<and>
        booksCollected (gameData s) \<le> booksCollected (gameData t) \<and>
        2 * chaosLevel (gameData t) + real (booksCollected (gameData t))
          = 2 * chaosLevel (gameData s) + real (booksCollected (gameData s))"
    with pickupStep_delta [of r cx cy i t]
    show "maxChaos (gameData (pickupStep r cx cy i t)) = maxChaos (gameData s) \<and>
        booksCollected (gameData s) \<le> booksCollected (gameData (pickupStep r cx cy i t)) \<and>
        2 * chaosLevel (gameData (pickupStep r cx cy i t))
            + real (booksCollected (gameData (pickupStep r cx cy i t)))
          = 2 * chaosLevel (gameData s) + real (booksCollected (gameData s))"
      by linarith
  qed simp
  with Some show ?thesis by (simp add: checkBookPickup_def)
qed

lemma checkBookSnatching_delta:
  "maxChaos (gameData (checkBookSnatching s)) = maxChaos (gameData s) \<and>
   booksCollected (gameData s) \<le> booksCollected (gameData (checkBookSnatching s)) \<and>
   4 * chaosLevel (gameData (checkBookSnatching s))
       + 3 * real (booksCollected (gameData (checkBookSnatching s)))
     = 4 * chaosLevel (gameData s) + 3 * real (booksCollected (gameData s))"
proof (cases "player s")
  case None
  then show ?thesis by (simp add: checkBookSnatching_def)
next
  case (Some p)
  have "maxChaos (gameData (fold (snatchStep r cx cy) xs s)) = maxChaos (gameData s) \<and>
        booksCollected (gameData s) \<le> booksCollected (gameData (fold (snatchStep r cx cy) xs s)) \<and>
        4 * chaosLevel (gameData (fold (snatchStep r cx cy) xs s))
            + 3 * real (booksCollected (gameData (fold (snatchStep r cx cy) xs s)))
          = 4 * chaosLevel (gameData s) + 3 * real (booksCollected (gameData s))"
    for r cx cy xs
  proof (rule fold_pres)
    fix i and t :: world
    assume "maxChaos (gameData t) = maxChaos (gameData s) \<and>
        booksCollected (gameData s) \<le> booksCollected (gameData t) \<and>
        4 * chaosLevel (gameData t) + 3 * real (booksCollected (gameData t))
          = 4 * chaosLevel (gameData s) + 3 * real (booksCollected (gameData s))"
    with snatchStep_delta [of r cx cy i t]
    show "maxChaos (gameData (snatchStep r cx cy i t)) = maxChaos (gameData s) \<and>
        booksCollected (gameData s) \<le> booksCollected (gameData (snatchStep r cx cy i t)) \<and>
        4 * chaosLevel (gameData (snatchStep r cx cy i t))
            + 3 * real (booksCollected (gameData (snatchStep r cx cy i t)))
          = 4 * chaosLevel (gameData s) + 3 * real (booksCollected (gameData s))"
      by linarith
  qed simp
  with Some show ?thesis by (simp add: checkBookSnatching_def)
qed

lemma checkBookShelving_delta:
  "maxChaos (gameData (checkBookShelving s)) = maxChaos (gameData s) \<and>
   booksShelved (gameData s) \<le> booksShelved (gameData (checkBookShelving s)) \<and>
   chaosLevel (gameData (checkBookShelving s))
       + real (booksShelved (gameData (checkBookShelving s)))
     = chaosLevel (gameData s) + real (booksShelved (gameData s))"
proof (cases "player s")
  case None
  then show ?thesis by (simp add: checkBookShelving_def)
next
  case (Some p)
  have "maxChaos (gameData (fold (shelvingStep r) xs s)) = maxChaos (gameData s) \<and>
        booksShelved (gameData s) \<le> booksShelved (gameData (fold (shelvingStep r) xs s)) \<and>
        chaosLevel (gameData (fold (shelvingStep r) xs s))
            + real (booksShelved (gameData (fold (shelvingStep r) xs s)))
          = chaosLevel (gameData s) + real (booksShelved (gameData s))"
    for r xs
  proof (rule fold_pres)
    fix i and t :: world
    assume "maxChaos (gameData t) = maxChaos (gameData s) \<and>
        booksShelved (gameData s) \<le> booksShelved (gameData t) \<and>
        chaosLevel (gameData t) + real (booksShelved (gameData t))
          = chaosLevel (gameData s) + real (booksShelved (gameData s))"
    with shelvingStep_delta [of r i t]
    show "maxChaos (gameData (shelvingStep r i t)) = maxChaos (gameData s) \<and>
        booksShelved (gameData s) \<le> booksShelved (gameData (shelvingStep r i t)) \<and>
        chaosLevel (gameData (shelvingStep r i t))
            + real (booksShelved (gameData (shelvingStep r i t)))
          = chaosLevel (gameData s) + real (booksShelved (gameData s))"
      by linarith
  qed simp
  with Some show ?thesis by (simp add: checkBookShelving_def)
qed

lemma updateChaos_range:
  "maxChaos (gameData (updateChaos deltaTime s)) = maxChaos (gameData s)"
  "0 \<le> maxChaos (gameData s) \<Longrightarrow> 0 \<le> chaosLevel (gameData (updateChaos deltaTime s))"
  "0 \<le> maxChaos (gameData s) \<Longrightarrow>
     chaosLevel (gameData (updateChaos deltaTime s)) \<le> maxChaos (gameData s)"
  by (simp_all add: updateChaos_def Let_def)

lemma updateKidSpawning_gameData:
  "gameData (updateKidSpawning newKid rnd deltaTime s) = gameData s"
  by (simp add: updateKidSpawning_def Let_def)

lemma updateParticles_gameData: "gameData (updateParticles deltaTime s) = gameData s"
  by (simp add: updateParticles_def Let_def)

lemma update_cases:
  "update entityUpdates newKid isKeyPressed rnd deltaTime s =
     (if isKeyPressed ''p'' \<or> isKeyPressed ''Escape''
      then (if bgMusic s then s\<lparr>events := events s @ [MusicPause, PushState ''paused'']\<rparr>
            else s\<lparr>events := events s @ [PushState ''paused'']\<rparr>)
      else if isPaused (gameData s) then s
      else if targetTime (gameData s) \<le> elapsedTime (gameData s) + deltaTime
      then s\<lparr>gameData := (gameData s)\<lparr>elapsedTime := elapsedTime (gameData s) + deltaTime\<rparr>,
             events := events s @ [ChangeState ''gameover'' True None]\<rparr>
      else if maxChaos (gameData s) \<le> chaosLevel (gameData (updateChaos deltaTime
             (s\<lparr>gameData := (gameData s)\<lparr>elapsedTime := elapsedTime (gameData s) + deltaTime\<rparr>\<rparr>)))
      then (updateChaos deltaTime
             (s\<lparr>gameData := (gameData s)\<lparr>elapsedTime := elapsedTime (gameData s) + deltaTime\<rparr>\<rparr>))
           \<lparr>events := events s @ [ChangeState ''gameover'' False (Some ''chaos'')]\<rparr>
      else updateParticles deltaTime
       (checkBookShelving (checkBookSnatching (checkBookPickup
          (updateKidSpawning newKid rnd deltaTime (entityUpdates deltaTime (updateChaos deltaTime
             (s\<lparr>gameData := (gameData s)
                  \<lparr>elapsedTime := elapsedTime (gameData s) + deltaTime\<rparr>\<rparr>))))))))"
proof -
  let ?s1 = "s\<lparr>gameData := (gameData s)\<lparr>elapsedTime := elapsedTime (gameData s) + deltaTime\<rparr>\<rparr>"
  have m: "maxChaos (gameData (updateChaos deltaTime ?s1)) = maxChaos (gameData s)"
    by (simp add: updateChaos_range)
  have e: "events (updateChaos deltaTime ?s1) = events s"
    by (simp add: updateChaos_def Let_def)
  show ?thesis
    unfolding update_def Let_def m e by simp
qed

















lemma awardXP_balance: "interruptBalance (awardXP amount s) = interruptBalance s"
  unfolding awardXP_def
  by (rule levelUpLoop_pres)
    (simp_all add: interruptBalance_def upgradePushes_def levelUp_events levelUp_gameData
      gainXP_events gainXP_gameData)

lemma balance_updates:
  "interruptBalance (s\<lparr>player := q\<rparr>) = interruptBalance s"
  "interruptBalance (s\<lparr>books := bs\<rparr>) = interruptBalance s"
  "interruptBalance (s\<lparr>kids := ks\<rparr>) = interruptBalance s"
  "interruptBalance (s\<lparr>shelves := shs\<rparr>) = interruptBalance s"
  "interruptBalance (s\<lparr>particles := ps\<rparr>) = interruptBalance s"
  "interruptBalance (s\<lparr>particlePool := n\<rparr>) = interruptBalance s"
  "interruptBalance (s\<lparr>gameData := (gameData s)\<lparr>chaosLevel := c\<rparr>\<rparr>) = interruptBalance s"
  "interruptBalance (s\<lparr>gameData := (gameData s)\<lparr>booksCollected := n\<rparr>\<rparr>) = interruptBalance s"
  "interruptBalance (s\<lparr>gameData := (gameData s)\<lparr>booksShelved := n\<rparr>\<rparr>) = interruptBalance s"
  "interruptBalance (s\<lparr>events := events s @ [PickupSound]\<rparr>) = interruptBalance s"
  "interruptBalance (s\<lparr>events := events s @ [ShelfSound]\<rparr>) = interruptBalance s"
  by (simp_all add: interruptBalance_def upgradePushes_def)

lemma pickupStep_balance: "interruptBalance (pickupStep r cx cy i s) = interruptBalance s"
  by (simp add: pickupStep_def Let_def pickupBook_def awardXP_balance balance_updates
      split: option.splits)
    (simp add: interruptBalance_def upgradePushes_def)

lemma snatchStep_balance: "interruptBalance (snatchStep r cx cy k s) = interruptBalance s"
  by (simp add: snatchStep_def Let_def pickupBook_def awardXP_balance balance_updates
      split: option.splits)
    (simp add: interruptBalance_def upgradePushes_def)

lemma shelvingStep_balance: "interruptBalance (shelvingStep r j s) = interruptBalance s"
  by (simp add: shelvingStep_def Let_def shelveBook_def addBook_def awardXP_balance balance_updates
      split: option.splits)
    (simp add: interruptBalance_def upgradePushes_def)

lemma fold_balance:
  assumes "\<And>i t. interruptBalance (f i t) = interruptBalance t"
  shows "interruptBalance (fold f xs s) = interruptBalance s"
  by (induction xs arbitrary: s) (simp_all add: assms)

lemma passes_balance:
  "interruptBalance (checkBookPickup s) = interruptBalance s"
  "interruptBalance (checkBookSnatching s) = interruptBalance s"
  "interruptBalance (checkBookShelving s) = interruptBalance s"
  by (simp_all add: checkBookPickup_def checkBookSnatching_def checkBookShelving_def
      fold_balance pickupStep_balance snatchStep_balance shelvingStep_balance
      split: option.splits)

lemma updateParticles_balance: "interruptBalance (updateParticles deltaTime s) = interruptBalance s"
  by (simp add: updateParticles_def Let_def interruptBalance_def upgradePushes_def)

lemma update_running:
  assumes "\<not> isKeyPressed ''p''" and "\<not> isKeyPressed ''Escape''"
    and "\<not> isPaused (gameData s)"
    and "elapsedTime (gameData s) + deltaTime < targetTime (gameData s)"
    and "chaosLevel (gameData (updateChaos deltaTime
           (s\<lparr>gameData := (gameData s)\<lparr>elapsedTime := elapsedTime (gameData s) + deltaTime\<rparr>\<rparr>)))
         < maxChaos (gameData s)"
  shows "update entityUpdates newKid isKeyPressed rnd deltaTime s =
     updateParticles deltaTime
       (checkBookShelving (checkBookSnatching (checkBookPickup
          (updateKidSpawning newKid rnd deltaTime (entityUpdates deltaTime (updateChaos deltaTime
             (s\<lparr>gameData := (gameData s)
                  \<lparr>elapsedTime := elapsedTime (gameData s) + deltaTime\<rparr>\<rparr>)))))))"
proof -
  let ?s1 = "s\<lparr>gameData := (gameData s)\<lparr>elapsedTime := elapsedTime (gameData s) + deltaTime\<rparr>\<rparr>"
  have m: "maxChaos (gameData (updateChaos deltaTime ?s1)) = maxChaos (gameData s)"
    by (simp add: updateChaos_def Let_def)
  have a: "\<not> targetTime (gameData ?s1) \<le> elapsedTime (gameData ?s1)"
    using assms(4) by simp
  have b: "\<not> maxChaos (gameData (updateChaos deltaTime ?s1))
             \<le> chaosLevel (gameData (updateChaos deltaTime ?s1))"
    using assms(5) by (simp add: m)
  show ?thesis
    unfolding update_def Let_def using assms(1-3) a b by (simp only: if_False simp_thms)
qed

subsection \<open>Sample ticks\<close>

lemmas sample_defs = emptyLibrary_def librarian_def redBook_def redShelf_def readingRoom_def
  initialGameData_def plainKid_def standStill_def noKey_def thief_def ambush_def strayBook_def

lemmas pass_defs = updateChaos_def booksOnFloor_def updateKidSpawning_def
  checkBookPickup_def pickupStep_def checkBookSnatching_def snatchStep_def
  checkBookShelving_def shelvingStep_def isPlayerNearShelf_def updateParticles_def advance_def
  centre_def distanceBetween_def pickupBook_def pickup_def shelveBook_def addBook_def
  hasEmptySlots_def awardXP_def gainXP_def getXPMultiplier_def levelUp_def Let_def
  levelUpLoop_done levelUpLoop_step

lemma strayBook_tick:
  "update standStill plainKid noKey 0 (1 / 10) strayBook =
     updateParticles (1 / 10)
       (checkBookShelving (checkBookSnatching (checkBookPickup
          (updateKidSpawning plainKid 0 (1 / 10) (standStill (1 / 10) (updateChaos (1 / 10)
             (strayBook\<lparr>gameData := (gameData strayBook)
                  \<lparr>elapsedTime := elapsedTime (gameData strayBook) + 1 / 10\<rparr>\<rparr>)))))))"
  by (rule update_running) (simp_all add: sample_defs pass_defs)


lemma readingRoom_tick:
  "update standStill plainKid noKey 0 (1 / 10)
     (readingRoom\<lparr>gameData := initialGameData\<lparr>xp := x\<rparr>\<rparr>) =
     updateParticles (1 / 10)
       (checkBookShelving (checkBookSnatching (checkBookPickup
          (updateKidSpawning plainKid 0 (1 / 10) (standStill (1 / 10) (updateChaos (1 / 10)
             (readingRoom\<lparr>gameData := initialGameData\<lparr>xp := x, elapsedTime := 1 / 10\<rparr>\<rparr>)))))))"
proof -
  let ?s = "readingRoom\<lparr>gameData := initialGameData\<lparr>xp := x\<rparr>\<rparr>"
  have "update standStill plainKid noKey 0 (1 / 10) ?s =
     updateParticles (1 / 10)
       (checkBookShelving (checkBookSnatching (checkBookPickup
          (updateKidSpawning plainKid 0 (1 / 10) (standStill (1 / 10) (updateChaos (1 / 10)
             (?s\<lparr>gameData := (gameData ?s)
                  \<lparr>elapsedTime := elapsedTime (gameData ?s) + 1 / 10\<rparr>\<rparr>)))))))"
    by (rule update_running) (simp_all add: sample_defs pass_defs)
  then show ?thesis by (simp add: initialGameData_def)
qed

subsection \<open>Chaos stays below the maximum, not above zero\<close>

text \<open>
  Claim C1, as the code has it. The per-tick chaos update leaves \<open>maxChaos\<close> as it is and
  the chaos level within \<open>[0, maxChaos]\<close>. The pickup, snatch and shelving passes leave
  \<open>maxChaos\<close> as it is and lower the chaos level by exactly 0.5 for each book the pickup
  pass collects, 0.75 for each book the snatch pass collects and 1.0 for each book
  shelved, with no clamp; none of them raises it. Hence, when the self-updates of the
  entities do not raise the chaos level and do not touch \<open>maxChaos\<close>, a tick that starts
  with the level at most \<open>maxChaos\<close> ends with the level at most \<open>maxChaos\<close>. Zero is a
  lower bound only right after the per-tick update.
\<close>

theorem chaos_bounds:
  "maxChaos (gameData (updateChaos deltaTime s)) = maxChaos (gameData s) \<and>
   (0 \<le> maxChaos (gameData s) \<longrightarrow>
      0 \<le> chaosLevel (gameData (updateChaos deltaTime s)) \<and>
      chaosLevel (gameData (updateChaos deltaTime s)) \<le> maxChaos (gameData s)) \<and>
   maxChaos (gameData (checkBookPickup s)) = maxChaos (gameData s) \<and>
   booksCollected (gameData s) \<le> booksCollected (gameData (checkBookPickup s)) \<and>
   chaosLevel (gameData (checkBookPickup s)) =
     chaosLevel (gameData s)
       - 0.5 * real (booksCollected (gameData (checkBookPickup s)) - booksCollected (gameData s)) \<and>
   maxChaos (gameData (checkBookSnatching s)) = maxChaos (gameData s) \<and>
   booksCollected (gameData s) \<le> booksCollected (gameData (checkBookSnatching s)) \<and>
   chaosLevel (gameData (checkBookSnatching s)) =
     chaosLevel (gameData s)
       - 0.75 * real (booksCollected (gameData (checkBookSnatching s)) - booksCollected (gameData s)) \<and>
   maxChaos (gameData (checkBookShelving s)) = maxChaos (gameData s) \<and>
   booksShelved (gameData s) \<le> booksShelved (gameData (checkBookShelving s)) \<and>
   chaosLevel (gameData (checkBookShelving s)) =
     chaosLevel (gameData s)
       - 1.0 * real (booksShelved (gameData (checkBookShelving s)) - booksShelved (gameData s)) \<and>
   chaosLevel (gameData (checkBookPickup s)) \<le> chaosLevel (gameData s) \<and>
   chaosLevel (gameData (checkBookSnatching s)) \<le> chaosLevel (gameData s) \<and>
   chaosLevel (gameData (checkBookShelving s)) \<le> chaosLevel (gameData s) \<and>
   ((\<forall>d t. chaosLevel (gameData (entityUpdates d t)) \<le> chaosLevel (gameData t) \<and>
            maxChaos (gameData (entityUpdates d t)) = maxChaos (gameData t)) \<and>
    0 \<le> maxChaos (gameData s) \<and> chaosLevel (gameData s) \<le> maxChaos (gameData s) \<longrightarrow>
      maxChaos (gameData (update entityUpdates newKid isKeyPressed rnd deltaTime s))
        = maxChaos (gameData s) \<and>
      chaosLevel (gameData (update entityUpdates newKid isKeyPressed rnd deltaTime s))
        \<le> maxChaos (gameData s))"
proof -
  note p = checkBookPickup_delta [of s]
  note n = checkBookSnatching_delta [of s]
  note h = checkBookShelving_delta [of s]
  have passes: "maxChaos (gameData (checkBookPickup s)) = maxChaos (gameData s) \<and>
   booksCollected (gameData s) \<le> booksCollected (gameData (checkBookPickup s)) \<and>
   chaosLevel (gameData (checkBookPickup s)) =
     chaosLevel (gameData s)
       - 0.5 * real (booksCollected (gameData (checkBookPickup s)) - booksCollected (gameData s)) \<and>
   maxChaos (gameData (checkBookSnatching s)) = maxChaos (gameData s) \<and>
   booksCollected (gameData s) \<le> booksCollected (gameData (checkBookSnatching s)) \<and>
   chaosLevel (gameData (checkBookSnatching s)) =
     chaosLevel (gameData s)
       - 0.75 * real (booksCollected (gameData (checkBookSnatching s)) - booksCollected (gameData s)) \<and>
   maxChaos (gameData (checkBookShelving s)) = maxChaos (gameData s) \<and>
   booksShelved (gameData s) \<le> booksShelved (gameData (checkBookShelving s)) \<and>
   chaosLevel (gameData (checkBookShelving s)) =
     chaosLevel (gameData s)
       - 1.0 * real (booksShelved (gameData (checkBookShelving s)) - booksShelved (gameData s)) \<and>
   chaosLevel (gameData (checkBookPickup s)) \<le> chaosLevel (gameData s) \<and>
   chaosLevel (gameData (checkBookSnatching s)) \<le> chaosLevel (gameData s) \<and>
   chaosLevel (gameData (checkBookShelving s)) \<le> chaosLevel (gameData s)"
  proof -
    have "chaosLevel (gameData (checkBookPickup s)) =
        chaosLevel (gameData s)
          - 0.5 * real (booksCollected (gameData (checkBookPickup s)) - booksCollected (gameData s))"
    proof -
      from p have "real (booksCollected (gameData (checkBookPickup s)) - booksCollected (gameData s))
          = real (booksCollected (gameData (checkBookPickup s))) - real (booksCollected (gameData s))"
        by simp
      with p have "chaosLevel (gameData (checkBookPickup s)) =
          chaosLevel (gameData s)
            - 1 / 2 * real (booksCollected (gameData (checkBookPickup s))
                            - booksCollected (gameData s))"
        by linarith
      then show ?thesis by simp
    qed
    moreover have "chaosLevel (gameData (checkBookSnatching s)) =
        chaosLevel (gameData s)
          - 0.75 * real (booksCollected (gameData (checkBookSnatching s)) - booksCollected (gameData s))"
    proof -
      from n have "real (booksCollected (gameData (checkBookSnatching s)) - booksCollected (gameData s))
          = real (booksCollected (gameData (checkBookSnatching s))) - real (booksCollected (gameData s))"
        by simp
      with n have "chaosLevel (gameData (checkBookSnatching s)) =
          chaosLevel (gameData s)
            - 3 / 4 * real (booksCollected (gameData (checkBookSnatching s))
                            - booksCollected (gameData s))"
        by linarith
      then show ?thesis by simp
    qed
    moreover have "chaosLevel (gameData (checkBookShelving s)) =
        chaosLevel (gameData s)
          - 1.0 * real (booksShelved (gameData (checkBookShelving s)) - booksShelved (gameData s))"
    proof -
      from h have "real (booksShelved (gameData (checkBookShelving s)) - booksShelved (gameData s))
          = real (booksShelved (gameData (checkBookShelving s))) - real (booksShelved (gameData s))"
        by simp
      with h have "chaosLevel (gameData (checkBookShelving s)) =
          chaosLevel (gameData s)
            - real (booksShelved (gameData (checkBookShelving s)) - booksShelved (gameData s))"
        by linarith
      then show ?thesis by simp
    qed
    moreover have "chaosLevel (gameData (checkBookPickup s)) \<le> chaosLevel (gameData s)"
      "chaosLevel (gameData (checkBookSnatching s)) \<le> chaosLevel (gameData s)"
      "chaosLevel (gameData (checkBookShelving s)) \<le> chaosLevel (gameData s)"
      using checkBookPickup_chaos [of s] checkBookSnatching_chaos [of s]
        checkBookShelving_chaos [of s] by simp_all
    ultimately show ?thesis
      using p n h by blast
  qed
  have tick: "maxChaos (gameData (update entityUpdates newKid isKeyPressed rnd deltaTime s))
        = maxChaos (gameData s) \<and>
      chaosLevel (gameData (update entityUpdates newKid isKeyPressed rnd deltaTime s))
        \<le> maxChaos (gameData s)"
    if quiet: "\<forall>d t. chaosLevel (gameData (entityUpdates d t)) \<le> chaosLevel (gameData t) \<and>
            maxChaos (gameData (entityUpdates d t)) = maxChaos (gameData t)"
      and pos: "0 \<le> maxChaos (gameData s)" and below: "chaosLevel (gameData s) \<le> maxChaos (gameData s)"
  proof -
    let ?s1 = "s\<lparr>gameData := (gameData s)\<lparr>elapsedTime := elapsedTime (gameData s) + deltaTime\<rparr>\<rparr>"
    let ?s2 = "updateChaos deltaTime ?s1"
    let ?s3 = "entityUpdates deltaTime ?s2"
    let ?s4 = "updateKidSpawning newKid rnd deltaTime ?s3"
    let ?s5 = "checkBookPickup ?s4"
    let ?s6 = "checkBookSnatching ?s5"
    let ?s7 = "checkBookShelving ?s6"
    have s2: "maxChaos (gameData ?s2) = maxChaos (gameData s)"
      "chaosLevel (gameData ?s2) \<le> maxChaos (gameData s)"
      using pos updateChaos_range [where s = ?s1 and deltaTime = deltaTime] by simp_all
    have s3: "maxChaos (gameData ?s3) = maxChaos (gameData s)"
      "chaosLevel (gameData ?s3) \<le> maxChaos (gameData s)"
      using quiet [rule_format, of deltaTime ?s2] s2 by linarith+
    have s4: "maxChaos (gameData ?s4) = maxChaos (gameData s)"
      "chaosLevel (gameData ?s4) \<le> maxChaos (gameData s)"
      using s3 by (simp_all add: updateKidSpawning_gameData)
    have s5: "maxChaos (gameData ?s5) = maxChaos (gameData s)"
      "chaosLevel (gameData ?s5) \<le> maxChaos (gameData s)"
      using checkBookPickup_chaos [of ?s4] s4 by linarith+
    have s6: "maxChaos (gameData ?s6) = maxChaos (gameData s)"
      "chaosLevel (gameData ?s6) \<le> maxChaos (gameData s)"
      using checkBookSnatching_chaos [of ?s5] s5 by linarith+
    have s7: "maxChaos (gameData ?s7) = maxChaos (gameData s)"
      "chaosLevel (gameData ?s7) \<le> maxChaos (gameData s)"
      using checkBookShelving_chaos [of ?s6] s6 by linarith+
    have s8: "maxChaos (gameData (updateParticles deltaTime ?s7)) = maxChaos (gameData s)"
      "chaosLevel (gameData (updateParticles deltaTime ?s7)) \<le> maxChaos (gameData s)"
      using s7 by (simp_all add: updateParticles_gameData)
    show ?thesis
      unfolding update_cases using below s2 s8 by simp
  qed
  from updateChaos_range [where s = s and deltaTime = deltaTime] passes tick show ?thesis
    by blast
qed

theorem chaos_bounds_witness:
  "(\<forall>d t. chaosLevel (gameData (standStill d t)) \<le> chaosLevel (gameData t) \<and>
           maxChaos (gameData (standStill d t)) = maxChaos (gameData t)) \<and>
   0 \<le> maxChaos (gameData strayBook) \<and>
   chaosLevel (gameData strayBook) \<le> maxChaos (gameData strayBook) \<and>
   0 \<le> chaosLevel (gameData (updateChaos 1 strayBook)) \<and>
   chaosLevel (gameData (updateChaos 1 strayBook)) \<le> maxChaos (gameData strayBook) \<and>
   booksCollected (gameData (checkBookPickup strayBook)) = 1 \<and>
   chaosLevel (gameData (checkBookPickup strayBook)) = - 0.5 \<and>
   chaosLevel (gameData (update standStill plainKid noKey 0 1 strayBook))
     \<le> maxChaos (gameData strayBook)"
proof -
  have quiet: "\<forall>d t. chaosLevel (gameData (standStill d t)) \<le> chaosLevel (gameData t) \<and>
           maxChaos (gameData (standStill d t)) = maxChaos (gameData t)"
    by (simp add: standStill_def)
  have start: "0 \<le> maxChaos (gameData strayBook)"
    "chaosLevel (gameData strayBook) \<le> maxChaos (gameData strayBook)"
    "chaosLevel (gameData strayBook) = 0" "booksCollected (gameData strayBook) = 0"
    by (simp_all add: strayBook_def emptyLibrary_def initialGameData_def)
  have one: "booksCollected (gameData (checkBookPickup strayBook)) = 1"
    by (simp add: sample_defs pass_defs)
  note bounds = chaos_bounds [where s = strayBook and deltaTime = 1
      and entityUpdates = standStill and newKid = plainKid and isKeyPressed = noKey and rnd = 0]
  from bounds start have "0 \<le> chaosLevel (gameData (updateChaos 1 strayBook))"
    and "chaosLevel (gameData (updateChaos 1 strayBook)) \<le> maxChaos (gameData strayBook)"
    by blast+
  moreover from bounds have "chaosLevel (gameData (checkBookPickup strayBook)) =
      chaosLevel (gameData strayBook)
        - 0.5 * real (booksCollected (gameData (checkBookPickup strayBook))
                      - booksCollected (gameData strayBook))"
    by blast
  then have "chaosLevel (gameData (checkBookPickup strayBook)) = - 0.5"
    by (simp add: one start)
  moreover from bounds quiet start
  have "chaosLevel (gameData (update standStill plainKid noKey 0 1 strayBook))
          \<le> maxChaos (gameData strayBook)"
    by blast
  ultimately show ?thesis
    using quiet start one by simp
qed

text \<open>
  Claim C1 as stated fails: in the first tick with one book on the floor under the
  player, the chaos update leaves 0.01 and the pickup takes 0.5 off; the tick ends with
  a negative chaos level.
\<close>

theorem chaos_negative_after_pickup:
  "chaosLevel (gameData strayBook) = 0 \<and> maxChaos (gameData strayBook) = 100 \<and>
   chaosLevel (gameData (update standStill plainKid noKey 0 (1 / 10) strayBook)) < 0"
  unfolding strayBook_tick by (simp add: sample_defs pass_defs)

subsection \<open>Picking up and shelving in one tick\<close>




subsection \<open>Upgrade interrupts inside a tick\<close>

text \<open>
  Claim C3, as the code has it. \<^verbatim>\<open>awardXP\<close> pushes the upgrade interrupt and returns to
  the pass that called it; the tick does not stop there. A tick that gets past the pause,
  victory and defeat checks always runs the pickup, snatch and shelving passes and the
  particle update to their end on the state that the spawn scheduler has left, and over
  these passes one interrupt is pushed for every level gained.
\<close>

theorem interrupts_do_not_stop_the_tick:
  fixes s :: world and deltaTime rnd :: real
    and entityUpdates :: "real \<Rightarrow> world \<Rightarrow> world"
    and newKid :: "real \<Rightarrow> real \<Rightarrow> nat \<Rightarrow> kid"
  defines "s1 \<equiv> s\<lparr>gameData := (gameData s)
                     \<lparr>elapsedTime := elapsedTime (gameData s) + deltaTime\<rparr>\<rparr>"
  defines "s4 \<equiv> updateKidSpawning newKid rnd deltaTime
                   (entityUpdates deltaTime (updateChaos deltaTime s1))"
  assumes keys: "\<not> isKeyPressed ''p''" "\<not> isKeyPressed ''Escape''"
    and running: "\<not> isPaused (gameData s)"
    and early: "elapsedTime (gameData s) + deltaTime < targetTime (gameData s)"
    and calm: "chaosLevel (gameData (updateChaos deltaTime s1)) < maxChaos (gameData s)"
  shows "update entityUpdates newKid isKeyPressed rnd deltaTime s =
           updateParticles deltaTime
             (checkBookShelving (checkBookSnatching (checkBookPickup s4))) \<and>
         int (upgradePushes (update entityUpdates newKid isKeyPressed rnd deltaTime s))
             - int (upgradePushes s4) =
           int (playerLevel (gameData (update entityUpdates newKid isKeyPressed rnd deltaTime s)))
             - int (playerLevel (gameData s4))"
proof -
  have run: "update entityUpdates newKid isKeyPressed rnd deltaTime s =
      updateParticles deltaTime (checkBookShelving (checkBookSnatching (checkBookPickup s4)))"
    unfolding s4_def s1_def using keys running early calm [unfolded s1_def]
    by (rule update_running)
  have "interruptBalance (updateParticles deltaTime
          (checkBookShelving (checkBookSnatching (checkBookPickup s4)))) = interruptBalance s4"
    by (simp add: updateParticles_balance passes_balance)
  then have "interruptBalance (update entityUpdates newKid isKeyPressed rnd deltaTime s)
               = interruptBalance s4"
    by (simp add: run)
  then have "int (upgradePushes (update entityUpdates newKid isKeyPressed rnd deltaTime s))
             - int (upgradePushes s4) =
           int (playerLevel (gameData (update entityUpdates newKid isKeyPressed rnd deltaTime s)))
             - int (playerLevel (gameData s4))"
    by (simp add: interruptBalance_def)
  with run show ?thesis by simp
qed

theorem interrupts_do_not_stop_the_tick_witness:
  "\<not> noKey ''p'' \<and> \<not> noKey ''Escape'' \<and>
   \<not> isPaused (gameData (readingRoom\<lparr>gameData := initialGameData\<lparr>xp := 95\<rparr>\<rparr>)) \<and>
   elapsedTime (gameData (readingRoom\<lparr>gameData := initialGameData\<lparr>xp := 95\<rparr>\<rparr>)) + 1 / 10
     < targetTime (gameData (readingRoom\<lparr>gameData := initialGameData\<lparr>xp := 95\<rparr>\<rparr>)) \<and>
   playerLevel (gameData (readingRoom\<lparr>gameData := initialGameData\<lparr>xp := 95\<rparr>\<rparr>)) = 1 \<and>
   playerLevel (gameData (update standStill plainKid noKey 0 (1 / 10)
       (readingRoom\<lparr>gameData := initialGameData\<lparr>xp := 95\<rparr>\<rparr>))) = 2 \<and>
   upgradePushes (update standStill plainKid noKey 0 (1 / 10)
       (readingRoom\<lparr>gameData := initialGameData\<lparr>xp := 95\<rparr>\<rparr>)) = 1"
proof -
  let ?s = "readingRoom\<lparr>gameData := initialGameData\<lparr>xp := 95\<rparr>\<rparr>"
  let ?s1 = "?s\<lparr>gameData := (gameData ?s)\<lparr>elapsedTime := elapsedTime (gameData ?s) + 1 / 10\<rparr>\<rparr>"
  let ?s4 = "updateKidSpawning plainKid 0 (1 / 10) (standStill (1 / 10) (updateChaos (1 / 10) ?s1))"
  have keys: "\<not> noKey ''p''" "\<not> noKey ''Escape''"
    by (simp_all add: noKey_def)
  have running: "\<not> isPaused (gameData ?s)"
    by (simp add: sample_defs)
  have early: "elapsedTime (gameData ?s) + 1 / 10 < targetTime (gameData ?s)"
    by (simp add: sample_defs)
  have calm: "chaosLevel (gameData (updateChaos (1 / 10) ?s1)) < maxChaos (gameData ?s)"
    by (simp add: sample_defs pass_defs)
  have before: "upgradePushes ?s4 = 0" "playerLevel (gameData ?s4) = 1"
    by (simp_all add: upgradePushes_def sample_defs pass_defs)
  have after: "playerLevel (gameData (update standStill plainKid noKey 0 (1 / 10) ?s)) = 2"
    unfolding readingRoom_tick by (simp add: sample_defs pass_defs)
  have count: "a = 1" if "int a - int b = int c - int d" and "b = 0" and "d = 1" and "c = 2"
    for a b c d :: nat
    using that by simp
  from interrupts_do_not_stop_the_tick [of noKey ?s "1 / 10" standStill plainKid 0,
      OF keys running early calm]
  have "int (upgradePushes (update standStill plainKid noKey 0 (1 / 10) ?s)) - int (upgradePushes ?s4)
        = int (playerLevel (gameData (update standStill plainKid noKey 0 (1 / 10) ?s)))
          - int (playerLevel (gameData ?s4))"
    by (rule conjunct2)
  then have "upgradePushes (update standStill plainKid noKey 0 (1 / 10) ?s) = 1"
    using before after by (rule count)
  with keys running early after show ?thesis
    by (simp add: sample_defs)
qed

text \<open>
  Claim C3 as stated fails: with \<open>xp = 95\<close>, the pickup of the book under the player
  crosses the threshold and pushes the interrupt; in the same tick the pickup sound is
  played after the push and the shelving pass still shelves the book.
\<close>

theorem tick_goes_on_after_interrupt:
  "booksShelved (gameData (readingRoom\<lparr>gameData := initialGameData\<lparr>xp := 95\<rparr>\<rparr>)) = 0 \<and>
   events (update standStill plainKid noKey 0 (1 / 10)
            (readingRoom\<lparr>gameData := initialGameData\<lparr>xp := 95\<rparr>\<rparr>)) =
     [PushState ''upgradeSelection'', PickupSound, ShelfSound] \<and>
   booksShelved (gameData (update standStill plainKid noKey 0 (1 / 10)
            (readingRoom\<lparr>gameData := initialGameData\<lparr>xp := 95\<rparr>\<rparr>))) = 1"
  unfolding readingRoom_tick by (simp add: sample_defs pass_defs)

subsection \<open>Snatching with a full hand\<close>

text \<open>
  Claim C4 on two kids within reach, each carrying a book, and a player with one free
  slot. The first snatch fills the slot. For the second kid \<^verbatim>\<open>checkBookSnatching\<close>
  clears the carried book and the drop timer before it asks the player to take the book;
  the player refuses, and the kid is left without its book, with its timer reset and its
  state unchanged, while the player carries the first book only.
\<close>

theorem snatch_clears_kid_without_transfer:
  "map carriedBook (kids ambush) = [Some 0, Some 1] \<and>
   map dropBookTimer (kids ambush) = [3, 3] \<and>
   map state (kids ambush) = [''carrying'', ''carrying''] \<and>
   map carriedBook (kids (checkBookSnatching ambush)) = [None, None] \<and>
   map dropBookTimer (kids (checkBookSnatching ambush)) = [0, 0] \<and>
   map state (kids (checkBookSnatching ambush)) = [''fleeing'', ''carrying''] \<and>
   map_option carriedBooks (player (checkBookSnatching ambush)) = Some [0]"
  by (simp add: sample_defs pass_defs)

text \<open>
  Claim C5 on the same state. Before the snatch pass each of the two books is referred
  to by exactly one list (its kid). After the pass the first book is in the player's
  carried list, and the second book is referred to by no list at all: it is still
  flagged as held, so it is not on the floor, and neither the player nor a kid nor a
  shelf has it.
\<close>

theorem snatch_orphans_book:
  "references ambush 0 = 1 \<and> references ambush 1 = 1 \<and>
   references (checkBookSnatching ambush) 0 = 1 \<and>
   references (checkBookSnatching ambush) 1 = 0"
  by (simp add: references_def sample_defs pass_defs)

end
